theory Spec2Isabelle
  imports Main
begin

section \<open>Data model of the risk analysis\<close>

text \<open>
  The analyzer (\<open>IPAnalyzer\<close>, ip-analyzer.js) builds one JavaScript object per request and
  lets every collector write into it. The object is a record here; a property that a
  collector may or may not have set is an \<open>option\<close> (\<open>None\<close> is \<open>undefined\<close>), and a
  property that is only ever set to \<open>true\<close> is a \<open>bool\<close> whose \<open>False\<close> is \<open>undefined\<close>.
\<close>

datatype reason =
  TOR_EXIT_NODE | VPN_PROXY_DETECTED | BAD_IP_REPUTATION | HIGH_RISK_SCORE | ANALYSIS_ERROR

datatype risk_level = LOW | MEDIUM | HIGH

text \<open>The outcome of a network request: the awaited value, or an exception.\<close>

datatype 'a call = Returns 'a | Throws

record geo =
  geo_country :: string
  geo_region :: string
  geo_city :: string
  geo_timezone :: string

record ua_result =
  ua_browser :: string
  ua_os :: string
  ua_device :: string

record vpn_data =
  proxy :: bool
  hosting :: bool

text \<open>
  The \<open>data\<close> object of an AbuseIPDB answer. The confidence is a whole number of percent.
\<close>

record rep_data =
  abuseConfidencePercentage :: int
  rep_isWhitelisted :: bool
  countryCode :: string

record details =
  country :: "string option"
  region :: "string option"
  city :: "string option"
  timezone :: "string option"
  riskyCountry :: bool
  isTor :: "bool option"
  torBlocked :: bool
  isProxy :: "bool option"
  isHosting :: "bool option"
  vpnBlocked :: bool
  browser :: "string option"
  os :: "string option"
  device :: "string option"
  suspiciousUA :: "string option"
  possibleBot :: bool
  abuseConfidence :: "int option"
  isWhitelisted :: "bool option"
  badReputation :: bool
  riskLevel :: "risk_level option"
  error :: "string option"

record checks =
  geoip :: bool
  tor :: bool
  vpn :: bool
  userAgent :: bool
  reputation :: bool

text \<open>
  \<open>checks\<close> is optional because the object returned by the handler of \<open>analyzeIP\<close> has
  no such property.
\<close>

record analysis =
  ip :: string
  isBlocked :: bool
  reason :: "reason option"
  riskScore :: int
  details :: details
  checks :: "checks option"

text \<open>
  \<open>process.env\<close>: each variable is a string or absent. A variable is truthy when it is
  present and not empty.
\<close>

record config =
  BLOCK_VPN_TOR :: "string option"
  STRICT_MODE :: "string option"
  IPAPI_KEY :: "string option"
  ABUSEIPDB_KEY :: "string option"

definition truthyStr :: "string option \<Rightarrow> bool" where
  "truthyStr v = (case v of None \<Rightarrow> False | Some s \<Rightarrow> s \<noteq> [])"

definition truthyFlag :: "bool option \<Rightarrow> bool" where
  "truthyFlag v = (case v of None \<Rightarrow> False | Some b \<Rightarrow> b)"

text \<open>
  What the outside world answers during one call of \<open>analyzeIP\<close>:
  \<^item> \<open>geoLookup\<close>: the value of \<open>geoip.lookup(ip)\<close>, a local table lookup (\<open>null\<close> or a record);
  \<^item> \<open>torLookup\<close>: the value awaited from \<open>torService.isTorExitNode(ip)\<close>, which has a
    handler of its own and always answers with a boolean;
  \<^item> \<open>vpnResponse\<close>: \<open>response.data\<close> of the ip-api request (\<open>None\<close> when falsy), or its failure;
  \<^item> \<open>uaResult\<close>: the value of \<open>parser.getResult()\<close>, a pure function of the string;
  \<^item> \<open>repResponse\<close>: \<open>response.data.data\<close> of the AbuseIPDB request (\<open>None\<close> when
    \<open>response.data && response.data.data\<close> is falsy), or its failure;
  \<^item> \<open>unexpected\<close>: an exception reaches the handler of \<open>analyzeIP\<close> itself.
\<close>

record signals =
  geoLookup :: "geo option"
  torLookup :: bool
  vpnResponse :: "vpn_data option call"
  uaResult :: ua_result
  repResponse :: "rep_data option call"
  unexpected :: bool

section \<open>The collectors\<close>

definition emptyDetails :: details where
  "emptyDetails =
     \<lparr> country = None, region = None, city = None, timezone = None, riskyCountry = False,
       isTor = None, torBlocked = False, isProxy = None, isHosting = None,
       vpnBlocked = False, browser = None, os = None, device = None, suspiciousUA = None,
       possibleBot = False, abuseConfidence = None, isWhitelisted = None,
       badReputation = False, riskLevel = None, error = None \<rparr>"

definition initialAnalysis :: "string \<Rightarrow> analysis" where
  "initialAnalysis i =
     \<lparr> ip = i, isBlocked = False, reason = None, riskScore = 0, details = emptyDetails,
       checks = Some \<lparr> geoip = False, tor = False, vpn = False, userAgent = False,
                       reputation = False \<rparr> \<rparr>"

definition riskyCountries :: "string list" where
  "riskyCountries = [''CN'', ''RU'', ''KP'', ''IR'']"

definition analyzeGeoIP :: "geo option \<Rightarrow> analysis \<Rightarrow> analysis" where
  "analyzeGeoIP lookup a =
     (case lookup of
        None \<Rightarrow> a
      | Some g \<Rightarrow>
          let a1 = a\<lparr> details := (details a)\<lparr> country := Some (geo_country g),
                                               region := Some (geo_region g),
                                               city := Some (geo_city g),
                                               timezone := Some (geo_timezone g) \<rparr>,
                      checks := map_option (\<lambda>c. c\<lparr> geoip := True \<rparr>) (checks a) \<rparr>
          in if geo_country g \<in> set riskyCountries
             then a1\<lparr> riskScore := riskScore a1 + 30,
                      details := (details a1)\<lparr> riskyCountry := True \<rparr> \<rparr>
             else a1)"

definition checkTorExitNode :: "config \<Rightarrow> bool \<Rightarrow> analysis \<Rightarrow> analysis" where
  "checkTorExitNode cfg isTorAnswer a =
     (let a1 = a\<lparr> details := (details a)\<lparr> isTor := Some isTorAnswer \<rparr>,
                   checks := map_option (\<lambda>c. c\<lparr> tor := True \<rparr>) (checks a) \<rparr>
      in if isTorAnswer \<and> BLOCK_VPN_TOR cfg = Some ''true''
         then a1\<lparr> riskScore := riskScore a1 + 80,
                  details := (details a1)\<lparr> torBlocked := True \<rparr> \<rparr>
         else a1)"

definition checkVPNProxy :: "config \<Rightarrow> vpn_data option call \<Rightarrow> analysis \<Rightarrow> analysis" where
  "checkVPNProxy cfg response a =
     (if truthyStr (IPAPI_KEY cfg) then
        (case response of
           Throws \<Rightarrow> a
         | Returns None \<Rightarrow> a
         | Returns (Some d) \<Rightarrow>
             let a1 = a\<lparr> details := (details a)\<lparr> isProxy := Some (proxy d),
                                                  isHosting := Some (hosting d) \<rparr>,
                         checks := map_option (\<lambda>c. c\<lparr> vpn := True \<rparr>) (checks a) \<rparr>
             in if (proxy d \<or> hosting d) \<and> BLOCK_VPN_TOR cfg = Some ''true''
                then a1\<lparr> riskScore := riskScore a1 + 60,
                         details := (details a1)\<lparr> vpnBlocked := True \<rparr> \<rparr>
                else a1)
      else a)"

subsection \<open>User-agent heuristics\<close>

text \<open>
  The bot test is \<open>botPatterns.some(pattern => pattern.test(userAgent))\<close> with patterns
  such as \<open>/bot/i\<close>: a case-insensitive search for a literal word anywhere in the string.
  The \<open>i\<close> flag compares characters after upper-casing. Only the letters a to z are
  mapped here: the patterns are made of ASCII letters, and no other character upper-cases
  to one.
\<close>

definition regexCanon :: "char \<Rightarrow> char" where
  "regexCanon c =
     (case map_of (zip ''abcdefghijklmnopqrstuvwxyz'' ''ABCDEFGHIJKLMNOPQRSTUVWXYZ'') c of
        None \<Rightarrow> c
      | Some u \<Rightarrow> u)"

fun matchesHere :: "string \<Rightarrow> string \<Rightarrow> bool" where
  "matchesHere [] s = True"
| "matchesHere (p # ps) [] = False"
| "matchesHere (p # ps) (c # cs) = (regexCanon p = regexCanon c \<and> matchesHere ps cs)"

fun regexTest :: "string \<Rightarrow> string \<Rightarrow> bool" where
  "regexTest p [] = matchesHere p []"
| "regexTest p (c # cs) = (matchesHere p (c # cs) \<or> regexTest p cs)"

definition botPatterns :: "string list" where
  "botPatterns =
     [''bot'', ''crawler'', ''spider'', ''scraper'', ''curl'', ''wget'', ''python'', ''java'']"

definition matchesBotPattern :: "string \<Rightarrow> bool" where
  "matchesBotPattern ua = list_ex (\<lambda>p. regexTest p ua) botPatterns"

text \<open>
  \<open>!userAgent || userAgent.length < 10\<close>: the empty string is the only falsy string.
  The string comes from an HTTP header, which Node decodes one byte to one character, so
  \<open>length\<close> counts what \<open>userAgent.length\<close> counts.
\<close>

definition analyzeUserAgent :: "ua_result \<Rightarrow> string \<Rightarrow> analysis \<Rightarrow> analysis" where
  "analyzeUserAgent result ua a =
     (let a1 = a\<lparr> details := (details a)\<lparr> browser := Some (ua_browser result),
                                          os := Some (ua_os result),
                                          device := Some (ua_device result) \<rparr>,
                   checks := map_option (\<lambda>c. c\<lparr> userAgent := True \<rparr>) (checks a) \<rparr>;
          a2 = (if ua = [] \<or> length ua < 10
                then a1\<lparr> riskScore := riskScore a1 + 20,
                         details := (details a1)\<lparr> suspiciousUA := Some ''Empty or too short'' \<rparr> \<rparr>
                else a1)
      in if matchesBotPattern ua
         then a2\<lparr> riskScore := riskScore a2 + 15,
                  details := (details a2)\<lparr> possibleBot := True \<rparr> \<rparr>
         else a2)"

definition checkIPReputation :: "rep_data option call \<Rightarrow> analysis \<Rightarrow> analysis" where
  "checkIPReputation response a =
     (case response of
        Throws \<Rightarrow> a
      | Returns None \<Rightarrow> a
      | Returns (Some d) \<Rightarrow>
          let a1 = a\<lparr> details := (details a)\<lparr>
                        abuseConfidence := Some (abuseConfidencePercentage d),
                        isWhitelisted := Some (rep_isWhitelisted d) \<rparr>,
                      checks := map_option (\<lambda>c. c\<lparr> reputation := True \<rparr>) (checks a) \<rparr>
          in if abuseConfidencePercentage d > 25
             then a1\<lparr> riskScore := riskScore a1 + min (abuseConfidencePercentage d) 50,
                      details := (details a1)\<lparr> badReputation := True \<rparr> \<rparr>
             else a1)"

section \<open>Scoring and the block decision\<close>

definition calculateRiskScore :: "analysis \<Rightarrow> analysis" where
  "calculateRiskScore a =
     (let a1 = a\<lparr> riskScore := min (riskScore a) 100 \<rparr>
      in a1\<lparr> details := (details a1)\<lparr> riskLevel :=
                 Some (if riskScore a1 \<ge> 70 then HIGH
                       else if riskScore a1 \<ge> 40 then MEDIUM
                       else LOW) \<rparr> \<rparr>)"

definition threshold :: "config \<Rightarrow> int" where
  "threshold cfg = (if STRICT_MODE cfg = Some ''true'' then 40 else 70)"

definition makeBlockDecision :: "config \<Rightarrow> analysis \<Rightarrow> analysis" where
  "makeBlockDecision cfg a =
     (if riskScore a \<ge> threshold cfg
      then a\<lparr> isBlocked := True,
              reason := Some (if truthyFlag (isTor (details a)) then TOR_EXIT_NODE
                              else if vpnBlocked (details a) then VPN_PROXY_DETECTED
                              else if badReputation (details a) then BAD_IP_REPUTATION
                              else HIGH_RISK_SCORE) \<rparr>
      else a)"

definition errorResult :: "string \<Rightarrow> analysis" where
  "errorResult i =
     \<lparr> ip = i, isBlocked = True, reason = Some ANALYSIS_ERROR, riskScore = 100,
       details = emptyDetails\<lparr> error := Some ''Analysis failed'' \<rparr>, checks = None \<rparr>"

text \<open>The five collectors in the order of \<open>analyzeIP\<close>, before scoring.\<close>

definition collect :: "config \<Rightarrow> signals \<Rightarrow> string \<Rightarrow> string \<Rightarrow> analysis" where
  "collect cfg sig i ua =
     (let a1 = analyzeGeoIP (geoLookup sig) (initialAnalysis i);
          a2 = checkTorExitNode cfg (torLookup sig) a1;
          a3 = checkVPNProxy cfg (vpnResponse sig) a2;
          a4 = analyzeUserAgent (uaResult sig) ua a3
      in if truthyStr (ABUSEIPDB_KEY cfg) then checkIPReputation (repResponse sig) a4 else a4)"

definition analyzeIP :: "config \<Rightarrow> signals \<Rightarrow> string \<Rightarrow> string \<Rightarrow> analysis" where
  "analyzeIP cfg sig i ua =
     (if unexpected sig then errorResult i
      else makeBlockDecision cfg (calculateRiskScore (collect cfg sig i ua)))"

section \<open>The Tor exit-node list\<close>

text \<open>
  \<open>TorService\<close> (tor-service.js) keeps a JavaScript \<open>Set\<close> of addresses and the time of
  the last update (\<open>null\<close> at start). Times are milliseconds as \<open>Date.now()\<close> gives them.
\<close>

record torService =
  torExitNodes :: "string set"
  lastUpdate :: "int option"

definition updateInterval :: int where
  "updateInterval = 3600000"

text \<open>
  \<open>split('\n')\<close>, \<open>trim()\<close> and \<open>startsWith('#')\<close>. The white space that \<open>trim\<close> removes is,
  among the characters of a byte string, tab, line feed, vertical tab, form feed,
  carriage return, space and the no-break space.
\<close>

fun splitOn :: "char \<Rightarrow> string \<Rightarrow> string list" where
  "splitOn sep [] = [[]]"
| "splitOn sep (c # cs) =
     (if c = sep then [] # splitOn sep cs
      else (case splitOn sep cs of
              [] \<Rightarrow> [[c]]
            | l # ls \<Rightarrow> (c # l) # ls))"

definition isWhiteSpace :: "char \<Rightarrow> bool" where
  "isWhiteSpace c =
     (c \<in> set [CHR 0x09, CHR 0x0A, CHR 0x0B, CHR 0x0C, CHR 0x0D, CHR 0x20, CHR 0xA0])"

definition trim :: "string \<Rightarrow> string" where
  "trim s = rev (dropWhile isWhiteSpace (rev (dropWhile isWhiteSpace s)))"

definition startsWithHash :: "string \<Rightarrow> bool" where
  "startsWithHash l = (case l of [] \<Rightarrow> False | c # _ \<Rightarrow> c = CHR ''#'')"

definition parseExitList :: "string \<Rightarrow> string list" where
  "parseExitList data =
     filter (\<lambda>line. line \<noteq> [] \<and> \<not> startsWithHash line) (map trim (splitOn (CHR 0x0A) data))"

definition knownExitNodes :: "string list" where
  "knownExitNodes =
     [''199.87.154.255'', ''104.244.76.13'', ''185.220.101.1'', ''199.195.249.84'',
      ''185.220.100.240'']"

definition loadHardcodedExitNodes :: "int \<Rightarrow> torService \<Rightarrow> torService" where
  "loadHardcodedExitNodes now ts =
     ts\<lparr> torExitNodes := torExitNodes ts \<union> set knownExitNodes, lastUpdate := Some now \<rparr>"

text \<open>
  A request answers with the body of the list (\<open>response.data\<close>) or raises; an empty body
  is falsy and skips the block under \<open>if (response.data)\<close>.
\<close>

definition loadFallbackExitNodes :: "string call \<Rightarrow> int \<Rightarrow> torService \<Rightarrow> torService" where
  "loadFallbackExitNodes secondary now ts =
     (case secondary of
        Throws \<Rightarrow> loadHardcodedExitNodes now ts
      | Returns data \<Rightarrow>
          if data \<noteq> []
          then ts\<lparr> torExitNodes := torExitNodes ts \<union> set (parseExitList data),
                   lastUpdate := Some now \<rparr>
          else ts)"

definition updateTorExitNodes ::
  "string call \<Rightarrow> string call \<Rightarrow> int \<Rightarrow> torService \<Rightarrow> torService" where
  "updateTorExitNodes primary secondary now ts =
     (case primary of
        Throws \<Rightarrow> loadFallbackExitNodes secondary now ts
      | Returns data \<Rightarrow>
          if data \<noteq> []
          then ts\<lparr> torExitNodes := set (parseExitList data), lastUpdate := Some now \<rparr>
          else ts)"

text \<open>\<open>!this.lastUpdate\<close> holds for \<open>null\<close> and for the number 0.\<close>

definition isTorExitNode ::
  "string call \<Rightarrow> string call \<Rightarrow> int \<Rightarrow> string \<Rightarrow> torService \<Rightarrow> bool \<times> torService" where
  "isTorExitNode primary secondary now i ts =
     (let stale = (case lastUpdate ts of
                     None \<Rightarrow> True
                   | Some t \<Rightarrow> t = 0 \<or> now - t > updateInterval);
          ts1 = (if stale then updateTorExitNodes primary secondary now ts else ts)
      in (i \<in> torExitNodes ts1, ts1))"

section \<open>The analysis cache\<close>

text \<open>
  Modelled from the spec: the store behind \<open>CacheService\<close> is the node-cache package, which
  is not part of the sources. An entry is the spec's CacheEntry
  \<open>(RiskAnalysis, insertedAt, ttlSeconds)\<close>, eligible for return only while
  \<open>now - insertedAt < ttlSeconds\<close>; an expired entry is a miss and is evicted at that
  lookup. Times are milliseconds, the time to live is in seconds.
\<close>

record cacheEntry =
  cachedValue :: analysis
  insertedAt :: int
  ttlSeconds :: int

text \<open>
  Modelled from the spec: the eligibility test of the store, which node-cache performs
  inside \<open>get\<close>.
\<close>

definition eligible :: "int \<Rightarrow> cacheEntry \<Rightarrow> bool" where
  "eligible now e = (now - insertedAt e < ttlSeconds e * 1000)"

text \<open>\<open>CacheService\<close> (cache-service.js): the store and the service's own counters.\<close>

record cacheService =
  cache :: "string \<rightharpoonup> cacheEntry"
  hits :: nat
  misses :: nat
  sets :: nat

definition cache_get :: "int \<Rightarrow> string \<Rightarrow> cacheService \<Rightarrow> analysis option \<times> cacheService" where
  "cache_get now key cs =
     (case cache cs key of
        None \<Rightarrow> (None, cs\<lparr> misses := misses cs + 1 \<rparr>)
      | Some e \<Rightarrow>
          if eligible now e then (Some (cachedValue e), cs\<lparr> hits := hits cs + 1 \<rparr>)
          else (None, cs\<lparr> cache := (cache cs)(key := None), misses := misses cs + 1 \<rparr>))"

definition cache_set :: "int \<Rightarrow> string \<Rightarrow> analysis \<Rightarrow> int \<Rightarrow> cacheService \<Rightarrow> cacheService" where
  "cache_set now key v ttl cs =
     cs\<lparr> cache := (cache cs)(key \<mapsto> \<lparr> cachedValue = v, insertedAt = now, ttlSeconds = ttl \<rparr>),
         sets := sets cs + 1 \<rparr>"

section \<open>The request log\<close>

record requestData =
  rd_requestId :: string
  rd_ip :: string
  rd_userAgent :: string
  rd_analysis :: analysis
  rd_timestamp :: int
  rd_url :: string
  rd_method :: string

record logEntry =
  log_timestamp :: int
  log_requestId :: string
  log_ip :: string
  log_userAgent :: string
  log_method :: string
  log_url :: string
  log_analysis :: analysis
  blocked :: bool
  log_riskScore :: int
  log_reason :: "reason option"

text \<open>
  \<open>LogService\<close> (log-service.js): the buffer \<open>requestLogs\<close> and the files of the log
  directory by name. A file holds a list of entries, or text that \<open>JSON.parse\<close> rejects
  (\<open>None\<close>).
\<close>

record logService =
  requestLogs :: "logEntry list"
  logFiles :: "string \<rightharpoonup> logEntry list option"

definition maxLogsInMemory :: nat where
  "maxLogsInMemory = 1000"

text \<open>
  \<open>today\<close> is the date part of \<open>new Date().toISOString()\<close>; \<open>writable\<close> says whether
  \<open>fs.writeFileSync\<close> succeeds. When it raises, the handler logs the error and the buffer
  stays as it is.
\<close>

definition flushLogsToDisk :: "string \<Rightarrow> bool \<Rightarrow> logService \<Rightarrow> logService" where
  "flushLogsToDisk today writable ls =
     (if requestLogs ls = [] then ls
      else
        let logFile = ''requests-'' @ today @ ''.json'';
            existingLogs = (case logFiles ls logFile of
                              None \<Rightarrow> []
                            | Some None \<Rightarrow> []
                            | Some (Some l) \<Rightarrow> l)
        in if writable
           then ls\<lparr> logFiles := (logFiles ls)(logFile \<mapsto> Some (existingLogs @ requestLogs ls)),
                    requestLogs := [] \<rparr>
           else ls)"

definition logRequest :: "string \<Rightarrow> bool \<Rightarrow> requestData \<Rightarrow> logService \<Rightarrow> logService" where
  "logRequest today writable rd ls =
     (let logEntry = \<lparr> log_timestamp = rd_timestamp rd,
                       log_requestId = rd_requestId rd,
                       log_ip = rd_ip rd,
                       log_userAgent = rd_userAgent rd,
                       log_method = rd_method rd,
                       log_url = rd_url rd,
                       log_analysis = rd_analysis rd,
                       blocked = isBlocked (rd_analysis rd),
                       log_riskScore = riskScore (rd_analysis rd),
                       log_reason = reason (rd_analysis rd) \<rparr>;
          ls1 = ls\<lparr> requestLogs := requestLogs ls @ [logEntry] \<rparr>
      in if length (requestLogs ls1) \<ge> maxLogsInMemory
         then flushLogsToDisk today writable ls1
         else ls1)"

section \<open>The gating middleware\<close>

text \<open>
  \<open>GuardianMiddleware\<close> (middleware/guardian.js). A request carries the headers and
  connection properties that \<open>getClientIP\<close> reads; each is a string or absent.
\<close>

record request =
  x_forwarded_for :: "string option"
  x_real_ip :: "string option"
  connection_remoteAddress :: "string option"
  socket_remoteAddress :: "string option"
  req_ip :: "string option"
  user_agent :: "string option"
  req_url :: string
  req_method :: string

text \<open>\<open>v || d\<close> for a string or absent \<open>v\<close>.\<close>

definition orElse :: "string option \<Rightarrow> string \<Rightarrow> string" where
  "orElse v d = (case v of None \<Rightarrow> d | Some s \<Rightarrow> if s \<noteq> [] then s else d)"

definition firstForwarded :: "string option \<Rightarrow> string option" where
  "firstForwarded h =
     map_option (\<lambda>s. trim (case splitOn (CHR '','') s of [] \<Rightarrow> [] | x # _ \<Rightarrow> x)) h"

definition getClientIP :: "request \<Rightarrow> string" where
  "getClientIP req =
     orElse (firstForwarded (x_forwarded_for req))
       (orElse (x_real_ip req)
          (orElse (connection_remoteAddress req)
             (orElse (socket_remoteAddress req)
                (orElse (req_ip req) ''127.0.0.1''))))"

text \<open>
  The two answers of \<open>handleResult\<close>: status 403 with reason, score, request id and time,
  or status 418 with score, details and request id.
\<close>

datatype response =
  Blocked403 "reason option" int string int
| Allowed418 int details string

text \<open>
  What one request finds outside the service: the clock, the date, the random request id
  and whether the log file can be written. \<open>cacheService.get\<close>, \<open>cacheService.set\<close>,
  \<open>analyzeIP\<close> and \<open>logRequest\<close> each end in a handler of their own, so nothing they
  raise reaches the handler of \<open>analyze\<close>; its answer with status 500 stands for a
  failing response object and is not part of the model.
\<close>

record reqContext =
  ctx_now :: int
  ctx_today :: string
  ctx_requestId :: string
  ctx_writable :: bool

definition handleResult :: "reqContext \<Rightarrow> analysis \<Rightarrow> string \<Rightarrow> response" where
  "handleResult ctx a requestId =
     (if isBlocked a then Blocked403 (reason a) (riskScore a) requestId (ctx_now ctx)
      else Allowed418 (riskScore a) (details a) requestId)"

record guardian =
  cacheSvc :: cacheService
  logSvc :: logService

definition cacheKeyOf :: "string \<Rightarrow> string" where
  "cacheKeyOf clientIP = ''analysis:'' @ clientIP"

definition analyze ::
  "config \<Rightarrow> signals \<Rightarrow> reqContext \<Rightarrow> request \<Rightarrow> guardian \<Rightarrow> response \<times> guardian" where
  "analyze cfg sig ctx req st =
     (let clientIP = getClientIP req;
          ua = orElse (user_agent req) [];
          requestId = ctx_requestId ctx;
          cacheKey = cacheKeyOf clientIP;
          (cachedResult, cs1) = cache_get (ctx_now ctx) cacheKey (cacheSvc st)
      in case cachedResult of
           Some cached \<Rightarrow> (handleResult ctx cached requestId, st\<lparr> cacheSvc := cs1 \<rparr>)
         | None \<Rightarrow>
             let a = analyzeIP cfg sig clientIP ua;
                 cs2 = cache_set (ctx_now ctx) cacheKey a 300 cs1;
                 ls2 = logRequest (ctx_today ctx) (ctx_writable ctx)
                         \<lparr> rd_requestId = requestId, rd_ip = clientIP, rd_userAgent = ua,
                           rd_analysis = a, rd_timestamp = ctx_now ctx, rd_url = req_url req,
                           rd_method = req_method req \<rparr>
                         (logSvc st)
             in (handleResult ctx a requestId, st\<lparr> cacheSvc := cs2, logSvc := ls2 \<rparr>))"

text \<open>
  The integration middleware of backend-integration/express-example.js keeps a cache of
  its own in front of the service and builds its key from both parts of the fingerprint:
  \<open>`${clientIP}:${userAgent}`\<close>.
\<close>

definition integrationCacheKey :: "string \<Rightarrow> string \<Rightarrow> string" where
  "integrationCacheKey clientIP ua = clientIP @ '':'' @ ua"

section \<open>What each collector leaves alone and what it adds\<close>

lemma analyzeGeoIP_frame:
  "isBlocked (analyzeGeoIP l a) = isBlocked a \<and> reason (analyzeGeoIP l a) = reason a"
  by (simp add: analyzeGeoIP_def Let_def split: option.splits)

lemma checkTorExitNode_frame:
  "isBlocked (checkTorExitNode cfg t a) = isBlocked a
   \<and> reason (checkTorExitNode cfg t a) = reason a"
  by (simp add: checkTorExitNode_def Let_def)

lemma checkVPNProxy_frame:
  "isBlocked (checkVPNProxy cfg r a) = isBlocked a \<and> reason (checkVPNProxy cfg r a) = reason a"
  by (simp add: checkVPNProxy_def Let_def split: call.splits option.splits)

lemma analyzeUserAgent_frame:
  "isBlocked (analyzeUserAgent r ua a) = isBlocked a
   \<and> reason (analyzeUserAgent r ua a) = reason a"
  by (simp add: analyzeUserAgent_def Let_def)

lemma checkIPReputation_frame:
  "isBlocked (checkIPReputation r a) = isBlocked a \<and> reason (checkIPReputation r a) = reason a"
  by (simp add: checkIPReputation_def Let_def split: call.splits option.splits)

lemma analyzeGeoIP_score:
  "riskScore (analyzeGeoIP l a) =
     riskScore a + (case l of
                      None \<Rightarrow> 0
                    | Some g \<Rightarrow> if geo_country g \<in> set riskyCountries then 30 else 0)"
  by (simp add: analyzeGeoIP_def Let_def split: option.splits)

lemma checkTorExitNode_score:
  "riskScore (checkTorExitNode cfg t a) =
     riskScore a + (if t \<and> BLOCK_VPN_TOR cfg = Some ''true'' then 80 else 0)"
  by (simp add: checkTorExitNode_def Let_def)

lemma checkVPNProxy_bounds:
  "riskScore a \<le> riskScore (checkVPNProxy cfg r a)
   \<and> riskScore (checkVPNProxy cfg r a) \<le> riskScore a + 60"
  by (simp add: checkVPNProxy_def Let_def split: call.splits option.splits)

lemma analyzeUserAgent_score:
  "riskScore (analyzeUserAgent r ua a) =
     riskScore a + (if length ua < 10 then 20 else 0) + (if matchesBotPattern ua then 15 else 0)"
  by (auto simp add: analyzeUserAgent_def Let_def)

lemma checkIPReputation_score:
  "riskScore (checkIPReputation (Returns (Some d)) a) =
     riskScore a + (if abuseConfidencePercentage d > 25
                    then min (abuseConfidencePercentage d) 50 else 0)"
  by (simp add: checkIPReputation_def Let_def)

lemma checkIPReputation_bounds:
  "riskScore a \<le> riskScore (checkIPReputation r a)
   \<and> riskScore (checkIPReputation r a) \<le> riskScore a + 50"
  by (simp add: checkIPReputation_def Let_def split: call.splits option.splits)

lemma collect_frame:
  "isBlocked (collect cfg sig i ua) = False \<and> reason (collect cfg sig i ua) = None"
  by (simp add: collect_def Let_def analyzeGeoIP_frame checkTorExitNode_frame
        checkVPNProxy_frame analyzeUserAgent_frame checkIPReputation_frame initialAnalysis_def)

text \<open>The sum of the collectors is at least what the user-agent collector adds.\<close>

lemma collect_ge_userAgent:
  "(if length ua < 10 then 20 else 0) + (if matchesBotPattern ua then 15 else 0)
     \<le> riskScore (collect cfg sig i ua)"
proof -
  let ?a0 = "initialAnalysis i"
  let ?a1 = "analyzeGeoIP (geoLookup sig) ?a0"
  let ?a2 = "checkTorExitNode cfg (torLookup sig) ?a1"
  let ?a3 = "checkVPNProxy cfg (vpnResponse sig) ?a2"
  let ?a4 = "analyzeUserAgent (uaResult sig) ua ?a3"
  let ?u = "(if length ua < 10 then 20 else 0) + (if matchesBotPattern ua then (15::int) else 0)"
  have 0: "riskScore ?a0 = 0" by (simp add: initialAnalysis_def)
  have 1: "0 \<le> riskScore ?a1" using 0 by (simp add: analyzeGeoIP_score split: option.splits)
  have 2: "0 \<le> riskScore ?a2" using 1 by (simp add: checkTorExitNode_score)
  have 3: "0 \<le> riskScore ?a3"
    using 2 checkVPNProxy_bounds [of ?a2 cfg "vpnResponse sig"] by linarith
  have 4: "?u \<le> riskScore ?a4" using 3 by (simp add: analyzeUserAgent_score)
  have 5: "?u \<le> riskScore (checkIPReputation (repResponse sig) ?a4)"
    using 4 checkIPReputation_bounds [of ?a4 "repResponse sig"] by linarith
  show ?thesis using 4 5 by (simp add: collect_def Let_def)
qed

lemma collect_nonneg: "0 \<le> riskScore (collect cfg sig i ua)"
proof -
  have "(0::int) \<le> (if length ua < 10 then 20 else 0) + (if matchesBotPattern ua then 15 else 0)"
    by simp
  then show ?thesis using collect_ge_userAgent [of ua cfg sig i] by linarith
qed

lemma calculateRiskScore_score: "riskScore (calculateRiskScore a) = min (riskScore a) 100"
  by (simp add: calculateRiskScore_def Let_def)

lemma calculateRiskScore_frame:
  "isBlocked (calculateRiskScore a) = isBlocked a \<and> reason (calculateRiskScore a) = reason a"
  by (simp add: calculateRiskScore_def Let_def)

lemma calculateRiskScore_flags:
  "isTor (details (calculateRiskScore a)) = isTor (details a)
   \<and> vpnBlocked (details (calculateRiskScore a)) = vpnBlocked (details a)
   \<and> badReputation (details (calculateRiskScore a)) = badReputation (details a)"
  by (simp add: calculateRiskScore_def Let_def)

lemma makeBlockDecision_score: "riskScore (makeBlockDecision cfg a) = riskScore a"
  by (simp add: makeBlockDecision_def)

lemma makeBlockDecision_details: "details (makeBlockDecision cfg a) = details a"
  by (simp add: makeBlockDecision_def)

lemma makeBlockDecision_reason:
  "threshold cfg \<le> riskScore a \<Longrightarrow>
   reason (makeBlockDecision cfg a) =
     Some (if truthyFlag (isTor (details a)) then TOR_EXIT_NODE
           else if vpnBlocked (details a) then VPN_PROXY_DETECTED
           else if badReputation (details a) then BAD_IP_REPUTATION
           else HIGH_RISK_SCORE)"
  by (simp add: makeBlockDecision_def)

lemma makeBlockDecision_reason_cases:
  "reason (makeBlockDecision cfg a) = reason a
   \<or> reason (makeBlockDecision cfg a)
       \<in> Some ` {TOR_EXIT_NODE, VPN_PROXY_DETECTED, BAD_IP_REPUTATION, HIGH_RISK_SCORE}"
  by (simp add: makeBlockDecision_def)

lemma threshold_le_100: "threshold cfg \<le> 100"
  by (simp add: threshold_def)

lemma blocked_iff_threshold:
  "isBlocked (analyzeIP cfg sig i ua) \<longleftrightarrow> threshold cfg \<le> riskScore (analyzeIP cfg sig i ua)"
proof (cases "unexpected sig")
  case True
  then show ?thesis using threshold_le_100 [of cfg]
    by (simp add: analyzeIP_def errorResult_def)
next
  case False
  let ?a = "calculateRiskScore (collect cfg sig i ua)"
  have nb: "\<not> isBlocked ?a" by (simp add: calculateRiskScore_frame collect_frame)
  have "isBlocked (makeBlockDecision cfg ?a) \<longleftrightarrow> threshold cfg \<le> riskScore ?a"
    using nb by (simp add: makeBlockDecision_def)
  then show ?thesis using False
    by (simp add: analyzeIP_def makeBlockDecision_score)
qed

subsection \<open>The Tor flag through the collectors\<close>

lemma analyzeGeoIP_isTor: "isTor (details (analyzeGeoIP l a)) = isTor (details a)"
  by (simp add: analyzeGeoIP_def Let_def split: option.splits)

lemma checkTorExitNode_isTor: "isTor (details (checkTorExitNode cfg t a)) = Some t"
  by (simp add: checkTorExitNode_def Let_def)

lemma checkVPNProxy_isTor: "isTor (details (checkVPNProxy cfg r a)) = isTor (details a)"
  by (simp add: checkVPNProxy_def Let_def split: call.splits option.splits)

lemma analyzeUserAgent_isTor: "isTor (details (analyzeUserAgent r ua a)) = isTor (details a)"
  by (simp add: analyzeUserAgent_def Let_def)

lemma checkIPReputation_isTor: "isTor (details (checkIPReputation r a)) = isTor (details a)"
  by (simp add: checkIPReputation_def Let_def split: call.splits option.splits)

lemma collect_isTor: "isTor (details (collect cfg sig i ua)) = Some (torLookup sig)"
  by (simp add: collect_def Let_def analyzeGeoIP_isTor checkTorExitNode_isTor
        checkVPNProxy_isTor analyzeUserAgent_isTor checkIPReputation_isTor)

subsection \<open>Failing and unconfigured collectors\<close>

lemma checkVPNProxy_Throws: "checkVPNProxy cfg Throws a = a"
  by (simp add: checkVPNProxy_def)

lemma checkIPReputation_Throws: "checkIPReputation Throws a = a"
  by (simp add: checkIPReputation_def)

lemma checkVPNProxy_no_key: "IPAPI_KEY cfg = None \<Longrightarrow> checkVPNProxy cfg r a = a"
  by (simp add: checkVPNProxy_def truthyStr_def)

lemma checkTorExitNode_cfg:
  "BLOCK_VPN_TOR cfg' = BLOCK_VPN_TOR cfg \<Longrightarrow>
   checkTorExitNode cfg' t a = checkTorExitNode cfg t a"
  by (simp add: checkTorExitNode_def)

lemma checkVPNProxy_cfg:
  "IPAPI_KEY cfg' = IPAPI_KEY cfg \<Longrightarrow> BLOCK_VPN_TOR cfg' = BLOCK_VPN_TOR cfg \<Longrightarrow>
   checkVPNProxy cfg' r a = checkVPNProxy cfg r a"
  by (simp add: checkVPNProxy_def split: call.splits option.splits)

lemma makeBlockDecision_cfg:
  "STRICT_MODE cfg' = STRICT_MODE cfg \<Longrightarrow> makeBlockDecision cfg' a = makeBlockDecision cfg a"
  by (simp add: makeBlockDecision_def threshold_def)

lemma collect_without_reputation:
  "collect cfg sig i ua =
     (if truthyStr (ABUSEIPDB_KEY cfg)
      then checkIPReputation (repResponse sig)
             (collect (cfg\<lparr> ABUSEIPDB_KEY := None \<rparr>) sig i ua)
      else collect (cfg\<lparr> ABUSEIPDB_KEY := None \<rparr>) sig i ua)"
proof -
  let ?cfg' = "cfg\<lparr> ABUSEIPDB_KEY := None \<rparr>"
  have v: "\<And>r a. checkVPNProxy ?cfg' r a = checkVPNProxy cfg r a"
    by (rule checkVPNProxy_cfg) simp_all
  show ?thesis
    by (simp add: collect_def Let_def truthyStr_def v checkTorExitNode_cfg [of ?cfg' cfg])
qed

subsection \<open>The pattern test is a search for a word\<close>

lemma matchesHere_iff:
  "matchesHere p s \<longleftrightarrow> (\<exists>post. map regexCanon s = map regexCanon p @ post)"
  by (induction p s rule: matchesHere.induct) auto

lemma regexTest_iff:
  "regexTest p s \<longleftrightarrow> (\<exists>pre post. map regexCanon s = pre @ map regexCanon p @ post)"
proof (induction s)
  case Nil
  then show ?case by (cases p) auto
next
  case (Cons c cs)
  show ?case
  proof
    assume "regexTest p (c # cs)"
    then consider "matchesHere p (c # cs)" | "regexTest p cs" by auto
    then show "\<exists>pre post. map regexCanon (c # cs) = pre @ map regexCanon p @ post"
    proof cases
      case 1
      then obtain post where "map regexCanon (c # cs) = map regexCanon p @ post"
        using matchesHere_iff by blast
      then have "map regexCanon (c # cs) = [] @ map regexCanon p @ post" by simp
      then show ?thesis by blast
    next
      case 2
      then obtain pre post where "map regexCanon cs = pre @ map regexCanon p @ post"
        using Cons.IH by blast
      then have "map regexCanon (c # cs) = (regexCanon c # pre) @ map regexCanon p @ post"
        by simp
      then show ?thesis by blast
    qed
  next
    assume "\<exists>pre post. map regexCanon (c # cs) = pre @ map regexCanon p @ post"
    then obtain pre post where e: "map regexCanon (c # cs) = pre @ map regexCanon p @ post"
      by blast
    show "regexTest p (c # cs)"
    proof (cases pre)
      case Nil
      then have "matchesHere p (c # cs)" using e matchesHere_iff by auto
      then show ?thesis by simp
    next
      case (Cons x pre')
      then have "map regexCanon cs = pre' @ map regexCanon p @ post" using e by simp
      then have "regexTest p cs" using Cons.IH by blast
      then show ?thesis by simp
    qed
  qed
qed

subsection \<open>The record of performed checks\<close>

lemma analyzeGeoIP_checks:
  "map_option userAgent (checks (analyzeGeoIP l a)) = map_option userAgent (checks a)
   \<and> (checks (analyzeGeoIP l a) = None \<longleftrightarrow> checks a = None)"
  by (simp add: analyzeGeoIP_def Let_def option.map_comp comp_def split: option.splits)

lemma checkTorExitNode_checks:
  "map_option userAgent (checks (checkTorExitNode cfg t a)) = map_option userAgent (checks a)
   \<and> (checks (checkTorExitNode cfg t a) = None \<longleftrightarrow> checks a = None)"
  by (simp add: checkTorExitNode_def Let_def option.map_comp comp_def)

lemma checkVPNProxy_checks:
  "map_option userAgent (checks (checkVPNProxy cfg r a)) = map_option userAgent (checks a)
   \<and> (checks (checkVPNProxy cfg r a) = None \<longleftrightarrow> checks a = None)"
  by (simp add: checkVPNProxy_def Let_def option.map_comp comp_def
        split: call.splits option.splits)

lemma analyzeUserAgent_checks:
  "map_option userAgent (checks (analyzeUserAgent r ua a)) = map_option (\<lambda>_. True) (checks a)"
  by (simp add: analyzeUserAgent_def Let_def option.map_comp comp_def)

lemma checkIPReputation_checks:
  "map_option userAgent (checks (checkIPReputation r a)) = map_option userAgent (checks a)"
  by (simp add: checkIPReputation_def Let_def option.map_comp comp_def
        split: call.splits option.splits)

lemma collect_userAgent_check: "map_option userAgent (checks (collect cfg sig i ua)) = Some True"
proof -
  let ?a3 = "checkVPNProxy cfg (vpnResponse sig)
               (checkTorExitNode cfg (torLookup sig)
                  (analyzeGeoIP (geoLookup sig) (initialAnalysis i)))"
  have "checks ?a3 \<noteq> None"
    by (simp add: checkVPNProxy_checks checkTorExitNode_checks analyzeGeoIP_checks
          initialAnalysis_def)
  then have u:
    "map_option userAgent (checks (analyzeUserAgent (uaResult sig) ua ?a3)) = Some True"
    by (cases "checks ?a3") (simp_all add: analyzeUserAgent_checks)
  have "map_option userAgent (checks (collect cfg sig i ua))
        = map_option userAgent (checks (analyzeUserAgent (uaResult sig) ua ?a3))"
    by (simp add: collect_def Let_def checkIPReputation_checks)
  then show ?thesis by (simp only: u)
qed

subsection \<open>The middleware on a cache hit\<close>

lemma analyze_hit:
  assumes "cache (cacheSvc st) (cacheKeyOf (getClientIP req)) = Some e"
    and "eligible (ctx_now ctx) e"
  shows "analyze cfg sig ctx req st =
           (handleResult ctx (cachedValue e) (ctx_requestId ctx),
            st\<lparr> cacheSvc := (cacheSvc st)\<lparr> hits := hits (cacheSvc st) + 1 \<rparr> \<rparr>)"
  using assms by (simp add: analyze_def cache_get_def Let_def)

subsection \<open>The three ways through the refresh chain\<close>

lemma updateTorExitNodes_primary:
  "d \<noteq> [] \<Longrightarrow> updateTorExitNodes (Returns d) s now ts
     = ts\<lparr> torExitNodes := set (parseExitList d), lastUpdate := Some now \<rparr>"
  by (simp add: updateTorExitNodes_def)

lemma updateTorExitNodes_secondary:
  "d \<noteq> [] \<Longrightarrow> updateTorExitNodes Throws (Returns d) now ts
     = ts\<lparr> torExitNodes := torExitNodes ts \<union> set (parseExitList d),
            lastUpdate := Some now \<rparr>"
  by (simp add: updateTorExitNodes_def loadFallbackExitNodes_def)

lemma updateTorExitNodes_hardcoded:
  "updateTorExitNodes Throws Throws now ts
     = ts\<lparr> torExitNodes := torExitNodes ts \<union> set knownExitNodes, lastUpdate := Some now \<rparr>"
  by (simp add: updateTorExitNodes_def loadFallbackExitNodes_def loadHardcodedExitNodes_def)

section \<open>The block decision\<close>

text \<open>
  Claim C1. For every analyzed request, whatever the configuration and the signals, the
  returned \<open>isBlocked\<close> holds exactly when the returned \<open>riskScore\<close> reaches the threshold,
  and the threshold is 40 when \<open>STRICT_MODE\<close> is the string \<open>true\<close> and 70 otherwise. The
  result of the handler (blocked, score 100) satisfies the same equivalence.
\<close>

theorem analyzeIP_blocked_iff_threshold:
  "(isBlocked (analyzeIP cfg sig i ua) \<longleftrightarrow> threshold cfg \<le> riskScore (analyzeIP cfg sig i ua))
   \<and> threshold cfg = (if STRICT_MODE cfg = Some ''true'' then 40 else 70)"
  using blocked_iff_threshold [of cfg sig i ua] by (simp add: threshold_def)

section \<open>The reason of a block\<close>

text \<open>
  Claim C2. When \<open>makeBlockDecision\<close> blocks (the score reaches the threshold), the reason
  is the first that applies of: \<open>TOR_EXIT_NODE\<close> if \<open>details.isTor\<close> is truthy,
  \<open>VPN_PROXY_DETECTED\<close> if \<open>details.vpnBlocked\<close> is set, \<open>BAD_IP_REPUTATION\<close> if
  \<open>details.badReputation\<close> is set, \<open>HIGH_RISK_SCORE\<close> otherwise. So it is for every
  request that \<open>analyzeIP\<close> blocks by that decision (a run that ends in the handler carries
  the reason of claim C3): the Tor flag of the result is the answer of the Tor lookup,
  and when the Tor lookup answers yes and the VPN flag is set as well, the reason is
  \<open>TOR_EXIT_NODE\<close>.
\<close>

theorem blocked_reason_priority:
  "(threshold cfg \<le> riskScore a \<longrightarrow>
      isBlocked (makeBlockDecision cfg a)
      \<and> reason (makeBlockDecision cfg a) =
          Some (if truthyFlag (isTor (details a)) then TOR_EXIT_NODE
                else if vpnBlocked (details a) then VPN_PROXY_DETECTED
                else if badReputation (details a) then BAD_IP_REPUTATION
                else HIGH_RISK_SCORE))
   \<and> (\<not> unexpected sig \<and> isBlocked (analyzeIP cfg sig i ua) \<longrightarrow>
        reason (analyzeIP cfg sig i ua) =
          Some (if truthyFlag (isTor (details (analyzeIP cfg sig i ua))) then TOR_EXIT_NODE
                else if vpnBlocked (details (analyzeIP cfg sig i ua)) then VPN_PROXY_DETECTED
                else if badReputation (details (analyzeIP cfg sig i ua))
                     then BAD_IP_REPUTATION
                else HIGH_RISK_SCORE)
        \<and> isTor (details (analyzeIP cfg sig i ua)) = Some (torLookup sig)
        \<and> (torLookup sig \<and> vpnBlocked (details (analyzeIP cfg sig i ua))
             \<longrightarrow> reason (analyzeIP cfg sig i ua) = Some TOR_EXIT_NODE
                 \<and> reason (analyzeIP cfg sig i ua) \<noteq> Some VPN_PROXY_DETECTED))"
proof -
  have decide: "isBlocked (makeBlockDecision cfg a)
      \<and> reason (makeBlockDecision cfg a) =
          Some (if truthyFlag (isTor (details a)) then TOR_EXIT_NODE
                else if vpnBlocked (details a) then VPN_PROXY_DETECTED
                else if badReputation (details a) then BAD_IP_REPUTATION
                else HIGH_RISK_SCORE)"
    if "threshold cfg \<le> riskScore a"
    using that by (simp add: makeBlockDecision_def)
  let ?r = "analyzeIP cfg sig i ua"
  have run: "reason ?r =
          Some (if truthyFlag (isTor (details ?r)) then TOR_EXIT_NODE
                else if vpnBlocked (details ?r) then VPN_PROXY_DETECTED
                else if badReputation (details ?r) then BAD_IP_REPUTATION
                else HIGH_RISK_SCORE)
        \<and> isTor (details ?r) = Some (torLookup sig)
        \<and> (torLookup sig \<and> vpnBlocked (details ?r)
             \<longrightarrow> reason ?r = Some TOR_EXIT_NODE \<and> reason ?r \<noteq> Some VPN_PROXY_DETECTED)"
    if n: "\<not> unexpected sig" and b: "isBlocked ?r"
  proof -
    let ?a = "calculateRiskScore (collect cfg sig i ua)"
    have r: "?r = makeBlockDecision cfg ?a"
      using n by (simp add: analyzeIP_def)
    have nb: "\<not> isBlocked ?a" by (simp add: calculateRiskScore_frame collect_frame)
    have th: "threshold cfg \<le> riskScore ?a"
      using b nb unfolding r by (simp add: makeBlockDecision_def split: if_splits)
    have tor: "isTor (details (makeBlockDecision cfg ?a)) = Some (torLookup sig)"
      by (simp add: makeBlockDecision_details calculateRiskScore_flags collect_isTor)
    have "reason (makeBlockDecision cfg ?a) =
       Some (if truthyFlag (isTor (details ?a)) then TOR_EXIT_NODE
             else if vpnBlocked (details ?a) then VPN_PROXY_DETECTED
             else if badReputation (details ?a) then BAD_IP_REPUTATION
             else HIGH_RISK_SCORE)"
      using th by (rule makeBlockDecision_reason)
    then show ?thesis unfolding r using tor
      by (simp add: makeBlockDecision_details truthyFlag_def)
  qed
  show ?thesis using decide run by blast
qed

theorem blocked_reason_priority_witness:
  "threshold \<lparr> BLOCK_VPN_TOR = Some ''true'', STRICT_MODE = None, IPAPI_KEY = Some ''key'',
          ABUSEIPDB_KEY = None \<rparr>
     \<le> riskScore ((initialAnalysis ''185.220.101.1'')\<lparr> riskScore := 75 \<rparr>)
   \<and> reason (makeBlockDecision
        \<lparr> BLOCK_VPN_TOR = Some ''true'', STRICT_MODE = None, IPAPI_KEY = Some ''key'',
          ABUSEIPDB_KEY = None \<rparr>
        ((initialAnalysis ''185.220.101.1'')\<lparr> riskScore := 75 \<rparr>)) = Some HIGH_RISK_SCORE
   \<and> \<not> unexpected \<lparr> geoLookup = None, torLookup = True,
          vpnResponse = Returns (Some \<lparr> proxy = True, hosting = False \<rparr>),
          uaResult = \<lparr> ua_browser = ''Firefox'', ua_os = ''Linux'', ua_device = [] \<rparr>,
          repResponse = Throws, unexpected = False \<rparr>
   \<and> isBlocked (analyzeIP
        \<lparr> BLOCK_VPN_TOR = Some ''true'', STRICT_MODE = None, IPAPI_KEY = Some ''key'',
          ABUSEIPDB_KEY = None \<rparr>
        \<lparr> geoLookup = None, torLookup = True,
          vpnResponse = Returns (Some \<lparr> proxy = True, hosting = False \<rparr>),
          uaResult = \<lparr> ua_browser = ''Firefox'', ua_os = ''Linux'', ua_device = [] \<rparr>,
          repResponse = Throws, unexpected = False \<rparr>
        ''185.220.101.1'' ''Mozilla/5.0 (X11; Linux x86_64) Firefox/115.0'')
   \<and> vpnBlocked (details (analyzeIP
        \<lparr> BLOCK_VPN_TOR = Some ''true'', STRICT_MODE = None, IPAPI_KEY = Some ''key'',
          ABUSEIPDB_KEY = None \<rparr>
        \<lparr> geoLookup = None, torLookup = True,
          vpnResponse = Returns (Some \<lparr> proxy = True, hosting = False \<rparr>),
          uaResult = \<lparr> ua_browser = ''Firefox'', ua_os = ''Linux'', ua_device = [] \<rparr>,
          repResponse = Throws, unexpected = False \<rparr>
        ''185.220.101.1'' ''Mozilla/5.0 (X11; Linux x86_64) Firefox/115.0''))
   \<and> reason (analyzeIP
        \<lparr> BLOCK_VPN_TOR = Some ''true'', STRICT_MODE = None, IPAPI_KEY = Some ''key'',
          ABUSEIPDB_KEY = None \<rparr>
        \<lparr> geoLookup = None, torLookup = True,
          vpnResponse = Returns (Some \<lparr> proxy = True, hosting = False \<rparr>),
          uaResult = \<lparr> ua_browser = ''Firefox'', ua_os = ''Linux'', ua_device = [] \<rparr>,
          repResponse = Throws, unexpected = False \<rparr>
        ''185.220.101.1'' ''Mozilla/5.0 (X11; Linux x86_64) Firefox/115.0'')
       = Some TOR_EXIT_NODE"
proof -
  let ?cfg = "\<lparr> BLOCK_VPN_TOR = Some ''true'', STRICT_MODE = None, IPAPI_KEY = Some ''key'',
          ABUSEIPDB_KEY = None \<rparr>"
  let ?sig = "\<lparr> geoLookup = None, torLookup = True,
          vpnResponse = Returns (Some \<lparr> proxy = True, hosting = False \<rparr>),
          uaResult = \<lparr> ua_browser = ''Firefox'', ua_os = ''Linux'', ua_device = [] \<rparr>,
          repResponse = Throws, unexpected = False \<rparr>"
  let ?ua = "''Mozilla/5.0 (X11; Linux x86_64) Firefox/115.0''"
  let ?r = "analyzeIP ?cfg ?sig ''185.220.101.1'' ?ua"
  let ?a = "(initialAnalysis ''185.220.101.1'')\<lparr> riskScore := 75 \<rparr>"
  have g1: "threshold ?cfg \<le> riskScore ?a" by code_simp
  have g2: "(if truthyFlag (isTor (details ?a)) then TOR_EXIT_NODE
             else if vpnBlocked (details ?a) then VPN_PROXY_DETECTED
             else if badReputation (details ?a) then BAD_IP_REPUTATION
             else HIGH_RISK_SCORE) = HIGH_RISK_SCORE"
    by code_simp
  have "reason (makeBlockDecision ?cfg ?a) =
          Some (if truthyFlag (isTor (details ?a)) then TOR_EXIT_NODE
                else if vpnBlocked (details ?a) then VPN_PROXY_DETECTED
                else if badReputation (details ?a) then BAD_IP_REPUTATION
                else HIGH_RISK_SCORE)"
    using blocked_reason_priority [of ?cfg ?a ?sig "''185.220.101.1''" ?ua] g1 by blast
  then have g: "reason (makeBlockDecision ?cfg ?a) = Some HIGH_RISK_SCORE"
    by (simp only: g2)
  have h1: "\<not> unexpected ?sig" by simp
  have h2: "isBlocked ?r" by code_simp
  have h3: "vpnBlocked (details ?r)" by code_simp
  have t: "torLookup ?sig" by simp
  have "reason ?r = Some TOR_EXIT_NODE"
    using blocked_reason_priority [of ?cfg _ ?sig "''185.220.101.1''" ?ua] h1 h2 h3 t by blast
  then show ?thesis using g1 g h1 h2 h3 by blast
qed

section \<open>Failing closed\<close>

text \<open>
  Claim C3. When an exception reaches the handler of \<open>analyzeIP\<close>, the result is blocked,
  has score 100 and reason \<open>ANALYSIS_ERROR\<close>. No other run has this reason. A collector
  whose request fails leaves the analysis as it found it, and a run in which both network
  requests fail gives the very result of a run without the two keys, in which the two
  requests are not made.
\<close>

theorem analyzeIP_fails_closed:
  "(unexpected sig \<longrightarrow>
      isBlocked (analyzeIP cfg sig i ua) \<and> riskScore (analyzeIP cfg sig i ua) = 100
      \<and> reason (analyzeIP cfg sig i ua) = Some ANALYSIS_ERROR)
   \<and> (\<not> unexpected sig \<longrightarrow> reason (analyzeIP cfg sig i ua) \<noteq> Some ANALYSIS_ERROR)
   \<and> checkVPNProxy cfg Throws a = a
   \<and> checkIPReputation Throws a = a
   \<and> analyzeIP cfg (sig\<lparr> vpnResponse := Throws, repResponse := Throws \<rparr>) i ua
       = analyzeIP (cfg\<lparr> IPAPI_KEY := None, ABUSEIPDB_KEY := None \<rparr>) sig i ua"
proof -
  have a: "unexpected sig \<longrightarrow>
      isBlocked (analyzeIP cfg sig i ua) \<and> riskScore (analyzeIP cfg sig i ua) = 100
      \<and> reason (analyzeIP cfg sig i ua) = Some ANALYSIS_ERROR"
    by (simp add: analyzeIP_def errorResult_def)
  have b: "\<not> unexpected sig \<longrightarrow> reason (analyzeIP cfg sig i ua) \<noteq> Some ANALYSIS_ERROR"
  proof
    assume n: "\<not> unexpected sig"
    let ?a = "calculateRiskScore (collect cfg sig i ua)"
    have "reason ?a = None" by (simp add: calculateRiskScore_frame collect_frame)
    then show "reason (analyzeIP cfg sig i ua) \<noteq> Some ANALYSIS_ERROR"
      using n makeBlockDecision_reason_cases [of cfg ?a] by (auto simp add: analyzeIP_def)
  qed
  let ?cfg' = "cfg\<lparr> IPAPI_KEY := None, ABUSEIPDB_KEY := None \<rparr>"
  let ?sig' = "sig\<lparr> vpnResponse := Throws, repResponse := Throws \<rparr>"
  have c: "collect cfg ?sig' i ua = collect ?cfg' sig i ua"
    by (simp add: collect_def Let_def checkVPNProxy_Throws checkIPReputation_Throws
          checkVPNProxy_no_key truthyStr_def checkTorExitNode_cfg [of ?cfg' cfg])
  have d: "analyzeIP cfg ?sig' i ua = analyzeIP ?cfg' sig i ua"
    by (simp add: analyzeIP_def c makeBlockDecision_cfg [of ?cfg' cfg])
  show ?thesis using a b d by (simp add: checkVPNProxy_Throws checkIPReputation_Throws)
qed

theorem analyzeIP_fails_closed_witness:
  "unexpected \<lparr> geoLookup = None, torLookup = False,
          vpnResponse = Throws,
          uaResult = \<lparr> ua_browser = ''Firefox'', ua_os = ''Linux'', ua_device = [] \<rparr>,
          repResponse = Throws, unexpected = True \<rparr>
   \<and> isBlocked (analyzeIP
        \<lparr> BLOCK_VPN_TOR = None, STRICT_MODE = None, IPAPI_KEY = None,
          ABUSEIPDB_KEY = None \<rparr>
        \<lparr> geoLookup = None, torLookup = False,
          vpnResponse = Throws,
          uaResult = \<lparr> ua_browser = ''Firefox'', ua_os = ''Linux'', ua_device = [] \<rparr>,
          repResponse = Throws, unexpected = True \<rparr>
        ''10.0.0.1'' ''Mozilla/5.0 (X11; Linux x86_64) Firefox/115.0'')
   \<and> riskScore (analyzeIP
        \<lparr> BLOCK_VPN_TOR = None, STRICT_MODE = None, IPAPI_KEY = None,
          ABUSEIPDB_KEY = None \<rparr>
        \<lparr> geoLookup = None, torLookup = False,
          vpnResponse = Throws,
          uaResult = \<lparr> ua_browser = ''Firefox'', ua_os = ''Linux'', ua_device = [] \<rparr>,
          repResponse = Throws, unexpected = True \<rparr>
        ''10.0.0.1'' ''Mozilla/5.0 (X11; Linux x86_64) Firefox/115.0'') = 100
   \<and> reason (analyzeIP
        \<lparr> BLOCK_VPN_TOR = None, STRICT_MODE = None, IPAPI_KEY = None,
          ABUSEIPDB_KEY = None \<rparr>
        \<lparr> geoLookup = None, torLookup = False,
          vpnResponse = Throws,
          uaResult = \<lparr> ua_browser = ''Firefox'', ua_os = ''Linux'', ua_device = [] \<rparr>,
          repResponse = Throws, unexpected = True \<rparr>
        ''10.0.0.1'' ''Mozilla/5.0 (X11; Linux x86_64) Firefox/115.0'') = Some ANALYSIS_ERROR
   \<and> \<not> unexpected \<lparr> geoLookup = None, torLookup = False,
          vpnResponse = Throws,
          uaResult = \<lparr> ua_browser = ''Firefox'', ua_os = ''Linux'', ua_device = [] \<rparr>,
          repResponse = Throws, unexpected = False \<rparr>
   \<and> reason (analyzeIP
        \<lparr> BLOCK_VPN_TOR = None, STRICT_MODE = None, IPAPI_KEY = None,
          ABUSEIPDB_KEY = None \<rparr>
        \<lparr> geoLookup = None, torLookup = False,
          vpnResponse = Throws,
          uaResult = \<lparr> ua_browser = ''Firefox'', ua_os = ''Linux'', ua_device = [] \<rparr>,
          repResponse = Throws, unexpected = False \<rparr>
        ''10.0.0.1'' ''Mozilla/5.0 (X11; Linux x86_64) Firefox/115.0'') \<noteq> Some ANALYSIS_ERROR"
proof -
  let ?cfg = "\<lparr> BLOCK_VPN_TOR = None, STRICT_MODE = None, IPAPI_KEY = None,
          ABUSEIPDB_KEY = None \<rparr>"
  let ?bad = "\<lparr> geoLookup = None, torLookup = False,
          vpnResponse = Throws,
          uaResult = \<lparr> ua_browser = ''Firefox'', ua_os = ''Linux'', ua_device = [] \<rparr>,
          repResponse = Throws, unexpected = True \<rparr>"
  let ?good = "\<lparr> geoLookup = None, torLookup = False,
          vpnResponse = Throws,
          uaResult = \<lparr> ua_browser = ''Firefox'', ua_os = ''Linux'', ua_device = [] \<rparr>,
          repResponse = Throws, unexpected = False \<rparr>"
  let ?ua = "''Mozilla/5.0 (X11; Linux x86_64) Firefox/115.0''"
  have h1: "unexpected ?bad" by simp
  have h2: "\<not> unexpected ?good" by simp
  have "isBlocked (analyzeIP ?cfg ?bad ''10.0.0.1'' ?ua)
        \<and> riskScore (analyzeIP ?cfg ?bad ''10.0.0.1'' ?ua) = 100
        \<and> reason (analyzeIP ?cfg ?bad ''10.0.0.1'' ?ua) = Some ANALYSIS_ERROR"
    using analyzeIP_fails_closed [of ?bad ?cfg "''10.0.0.1''" ?ua] h1 by blast
  moreover have "reason (analyzeIP ?cfg ?good ''10.0.0.1'' ?ua) \<noteq> Some ANALYSIS_ERROR"
    using analyzeIP_fails_closed [of ?good ?cfg "''10.0.0.1''" ?ua] h2 by blast
  ultimately show ?thesis using h1 h2 by blast
qed

section \<open>The key of the analysis cache\<close>

text \<open>
  Claim C4. The claim asks for a cache keyed by client address and user agent, so that a
  request never receives the analysis cached for another user agent. The middleware builds
  its key from the address alone. Two requests from \<open>203.0.113.7\<close>, sixty seconds apart,
  under strict mode and from a high-risk country: the first, with a browser's user agent,
  is analysed (score 30, allowed) and cached; the second, with the user agent
  \<open>curl/7.68\<close>, would score 65 and be blocked, but receives the cached answer of the first.
  The integration middleware of the same repository keys its cache by both parts, and
  its keys for the two requests differ.
\<close>

theorem cache_key_ignores_userAgent:
  "getClientIP \<lparr> x_forwarded_for = Some ''203.0.113.7, 10.0.0.1'', x_real_ip = None,
          connection_remoteAddress = Some ''10.0.0.1'', socket_remoteAddress = None,
          req_ip = None, user_agent = Some ''Mozilla/5.0 (X11; Linux x86_64) Firefox/115.0'', req_url = ''/'',
          req_method = ''GET'' \<rparr> = ''203.0.113.7''
   \<and> getClientIP \<lparr> x_forwarded_for = Some ''203.0.113.7'', x_real_ip = None,
          connection_remoteAddress = Some ''10.0.0.1'', socket_remoteAddress = None,
          req_ip = None, user_agent = Some ''curl/7.68'', req_url = ''/'',
          req_method = ''GET'' \<rparr> = ''203.0.113.7''
   \<and> riskScore (analyzeIP
        \<lparr> BLOCK_VPN_TOR = Some ''true'', STRICT_MODE = Some ''true'', IPAPI_KEY = None,
          ABUSEIPDB_KEY = None \<rparr>
        \<lparr> geoLookup = Some \<lparr> geo_country = ''CN'', geo_region = ''BJ'', geo_city = ''Beijing'',
                             geo_timezone = ''Asia/Shanghai'' \<rparr>, torLookup = False,
          vpnResponse = Throws,
          uaResult = \<lparr> ua_browser = ''Firefox'', ua_os = ''Linux'', ua_device = [] \<rparr>,
          repResponse = Throws, unexpected = False \<rparr>
        ''203.0.113.7'' ''Mozilla/5.0 (X11; Linux x86_64) Firefox/115.0'') = 30
   \<and> \<not> isBlocked (analyzeIP
        \<lparr> BLOCK_VPN_TOR = Some ''true'', STRICT_MODE = Some ''true'', IPAPI_KEY = None,
          ABUSEIPDB_KEY = None \<rparr>
        \<lparr> geoLookup = Some \<lparr> geo_country = ''CN'', geo_region = ''BJ'', geo_city = ''Beijing'',
                             geo_timezone = ''Asia/Shanghai'' \<rparr>, torLookup = False,
          vpnResponse = Throws,
          uaResult = \<lparr> ua_browser = ''Firefox'', ua_os = ''Linux'', ua_device = [] \<rparr>,
          repResponse = Throws, unexpected = False \<rparr>
        ''203.0.113.7'' ''Mozilla/5.0 (X11; Linux x86_64) Firefox/115.0'')
   \<and> riskScore (analyzeIP
        \<lparr> BLOCK_VPN_TOR = Some ''true'', STRICT_MODE = Some ''true'', IPAPI_KEY = None,
          ABUSEIPDB_KEY = None \<rparr>
        \<lparr> geoLookup = Some \<lparr> geo_country = ''CN'', geo_region = ''BJ'', geo_city = ''Beijing'',
                             geo_timezone = ''Asia/Shanghai'' \<rparr>, torLookup = False,
          vpnResponse = Throws,
          uaResult = \<lparr> ua_browser = ''curl'', ua_os = ''Linux'', ua_device = [] \<rparr>,
          repResponse = Throws, unexpected = False \<rparr>
        ''203.0.113.7'' ''curl/7.68'') = 65
   \<and> isBlocked (analyzeIP
        \<lparr> BLOCK_VPN_TOR = Some ''true'', STRICT_MODE = Some ''true'', IPAPI_KEY = None,
          ABUSEIPDB_KEY = None \<rparr>
        \<lparr> geoLookup = Some \<lparr> geo_country = ''CN'', geo_region = ''BJ'', geo_city = ''Beijing'',
                             geo_timezone = ''Asia/Shanghai'' \<rparr>, torLookup = False,
          vpnResponse = Throws,
          uaResult = \<lparr> ua_browser = ''curl'', ua_os = ''Linux'', ua_device = [] \<rparr>,
          repResponse = Throws, unexpected = False \<rparr>
        ''203.0.113.7'' ''curl/7.68'')
   \<and> fst (analyze
        \<lparr> BLOCK_VPN_TOR = Some ''true'', STRICT_MODE = Some ''true'', IPAPI_KEY = None,
          ABUSEIPDB_KEY = None \<rparr>
        \<lparr> geoLookup = Some \<lparr> geo_country = ''CN'', geo_region = ''BJ'', geo_city = ''Beijing'',
                             geo_timezone = ''Asia/Shanghai'' \<rparr>, torLookup = False,
          vpnResponse = Throws,
          uaResult = \<lparr> ua_browser = ''curl'', ua_os = ''Linux'', ua_device = [] \<rparr>,
          repResponse = Throws, unexpected = False \<rparr>
        \<lparr> ctx_now = 1060000, ctx_today = ''2024-01-01'', ctx_requestId = ''r2'',
          ctx_writable = True \<rparr>
        \<lparr> x_forwarded_for = Some ''203.0.113.7'', x_real_ip = None,
          connection_remoteAddress = Some ''10.0.0.1'', socket_remoteAddress = None,
          req_ip = None, user_agent = Some ''curl/7.68'', req_url = ''/'',
          req_method = ''GET'' \<rparr>
        (snd (analyze
          \<lparr> BLOCK_VPN_TOR = Some ''true'', STRICT_MODE = Some ''true'', IPAPI_KEY = None,
          ABUSEIPDB_KEY = None \<rparr>
          \<lparr> geoLookup = Some \<lparr> geo_country = ''CN'', geo_region = ''BJ'', geo_city = ''Beijing'',
                             geo_timezone = ''Asia/Shanghai'' \<rparr>, torLookup = False,
          vpnResponse = Throws,
          uaResult = \<lparr> ua_browser = ''Firefox'', ua_os = ''Linux'', ua_device = [] \<rparr>,
          repResponse = Throws, unexpected = False \<rparr>
          \<lparr> ctx_now = 1000000, ctx_today = ''2024-01-01'', ctx_requestId = ''r1'',
          ctx_writable = True \<rparr>
          \<lparr> x_forwarded_for = Some ''203.0.113.7, 10.0.0.1'', x_real_ip = None,
          connection_remoteAddress = Some ''10.0.0.1'', socket_remoteAddress = None,
          req_ip = None, user_agent = Some ''Mozilla/5.0 (X11; Linux x86_64) Firefox/115.0'', req_url = ''/'',
          req_method = ''GET'' \<rparr>
          \<lparr> cacheSvc = \<lparr> cache = Map.empty, hits = 0, misses = 0, sets = 0 \<rparr>,
          logSvc = \<lparr> requestLogs = [], logFiles = Map.empty \<rparr> \<rparr>)))
      = handleResult
          \<lparr> ctx_now = 1060000, ctx_today = ''2024-01-01'', ctx_requestId = ''r2'',
          ctx_writable = True \<rparr>
          (analyzeIP
            \<lparr> BLOCK_VPN_TOR = Some ''true'', STRICT_MODE = Some ''true'', IPAPI_KEY = None,
          ABUSEIPDB_KEY = None \<rparr>
            \<lparr> geoLookup = Some \<lparr> geo_country = ''CN'', geo_region = ''BJ'', geo_city = ''Beijing'',
                             geo_timezone = ''Asia/Shanghai'' \<rparr>, torLookup = False,
          vpnResponse = Throws,
          uaResult = \<lparr> ua_browser = ''Firefox'', ua_os = ''Linux'', ua_device = [] \<rparr>,
          repResponse = Throws, unexpected = False \<rparr>
            ''203.0.113.7'' ''Mozilla/5.0 (X11; Linux x86_64) Firefox/115.0'')
          ''r2''
   \<and> integrationCacheKey ''203.0.113.7'' ''Mozilla/5.0 (X11; Linux x86_64) Firefox/115.0''
       \<noteq> integrationCacheKey ''203.0.113.7'' ''curl/7.68''"
  by code_simp

section \<open>The range of the score\<close>

text \<open>
  Claim C5. For all inputs the returned \<open>riskScore\<close> lies between 0 and 100, the result of
  the handler included. No collector lowers the score it finds, and \<open>calculateRiskScore\<close>
  cuts the sum at 100.
\<close>

theorem analyzeIP_riskScore_range:
  "0 \<le> riskScore (analyzeIP cfg sig i ua) \<and> riskScore (analyzeIP cfg sig i ua) \<le> 100
   \<and> riskScore a \<le> riskScore (analyzeGeoIP l a)
   \<and> riskScore a \<le> riskScore (checkTorExitNode cfg t a)
   \<and> riskScore a \<le> riskScore (checkVPNProxy cfg v a)
   \<and> riskScore a \<le> riskScore (analyzeUserAgent r ua a)
   \<and> riskScore a \<le> riskScore (checkIPReputation p a)
   \<and> riskScore (calculateRiskScore a) = min (riskScore a) 100"
proof -
  have "0 \<le> riskScore (analyzeIP cfg sig i ua) \<and> riskScore (analyzeIP cfg sig i ua) \<le> 100"
    using collect_nonneg [of cfg sig i ua]
    by (simp add: analyzeIP_def errorResult_def makeBlockDecision_score
          calculateRiskScore_score)
  moreover have "riskScore a \<le> riskScore (analyzeGeoIP l a)"
    by (simp add: analyzeGeoIP_score split: option.splits)
  moreover have "riskScore a \<le> riskScore (checkTorExitNode cfg t a)"
    by (simp add: checkTorExitNode_score)
  moreover have "riskScore a \<le> riskScore (checkVPNProxy cfg v a)"
    using checkVPNProxy_bounds by blast
  moreover have "riskScore a \<le> riskScore (analyzeUserAgent r ua a)"
    by (simp add: analyzeUserAgent_score)
  moreover have "riskScore a \<le> riskScore (checkIPReputation p a)"
    using checkIPReputation_bounds by blast
  ultimately show ?thesis by (simp add: calculateRiskScore_score)
qed

section \<open>The refresh of the Tor list\<close>

text \<open>
  Claim C6. The claim says that every attempt of the chain replaces the set in full. The
  primary attempt does: it clears the set before adding. The secondary attempt adds to
  the set without clearing it. With the set \<open>{1.1.1.1}\<close> before the refresh and the list
  \<open>2.2.2.2\<close> delivered, the primary attempt leaves \<open>{2.2.2.2}\<close>, while a failing primary
  followed by the secondary leaves \<open>{1.1.1.1, 2.2.2.2}\<close>: the entry of the prior snapshot
  is retained. It is retained as well when both requests fail and the hardcoded addresses
  are added.
\<close>

theorem fallback_merges_into_prior_set:
  "torExitNodes (updateTorExitNodes (Returns ''2.2.2.2'') Throws 5000
      \<lparr> torExitNodes = {''1.1.1.1''}, lastUpdate = Some 1000 \<rparr>) = {''2.2.2.2''}
   \<and> torExitNodes (updateTorExitNodes Throws (Returns ''2.2.2.2'') 5000
      \<lparr> torExitNodes = {''1.1.1.1''}, lastUpdate = Some 1000 \<rparr>) = {''1.1.1.1'', ''2.2.2.2''}
   \<and> set (parseExitList ''2.2.2.2'') = {''2.2.2.2''}
   \<and> ''1.1.1.1'' \<in> torExitNodes (updateTorExitNodes Throws Throws 5000
      \<lparr> torExitNodes = {''1.1.1.1''}, lastUpdate = Some 1000 \<rparr>)"
proof -
  have p: "parseExitList ''2.2.2.2'' = [''2.2.2.2'']" by code_simp
  show ?thesis
    by (auto simp add: updateTorExitNodes_primary updateTorExitNodes_secondary
          updateTorExitNodes_hardcoded p)
qed

text \<open>
  Claim C7, as stated, fails: with a snapshot in place and both remote requests failing,
  the hardcoded addresses are added to the set.
\<close>

theorem hardcoded_added_despite_snapshot:
  "torExitNodes (updateTorExitNodes Throws Throws 5000
      \<lparr> torExitNodes = {''1.1.1.1''}, lastUpdate = Some 1000 \<rparr>)
     \<noteq> torExitNodes \<lparr> torExitNodes = {''1.1.1.1''}, lastUpdate = Some 1000 \<rparr>
   \<and> ''199.87.154.255'' \<in> torExitNodes (updateTorExitNodes Throws Throws 5000
      \<lparr> torExitNodes = {''1.1.1.1''}, lastUpdate = Some 1000 \<rparr>)"
  by (simp add: updateTorExitNodes_hardcoded knownExitNodes_def)

text \<open>
  Claim C7, amended. When the primary request fails and the secondary delivers a list that
  is not empty, every entry of that list is in the new snapshot, the time of the update
  is set, and the snapshot is exactly that list when the set was empty before. When both
  requests fail, the hardcoded addresses are added to the set whether or not a snapshot
  exists, and the entries of the last snapshot stay. The hardcoded addresses are used in
  no other case: when the primary or the secondary request returns, nothing enters the
  set but entries of the delivered list.
\<close>

theorem fallback_chain_amended:
  "(d \<noteq> [] \<longrightarrow>
      set (parseExitList d) \<subseteq> torExitNodes (updateTorExitNodes Throws (Returns d) now ts)
      \<and> lastUpdate (updateTorExitNodes Throws (Returns d) now ts) = Some now
      \<and> (torExitNodes ts = {} \<longrightarrow>
           torExitNodes (updateTorExitNodes Throws (Returns d) now ts)
             = set (parseExitList d)))
   \<and> torExitNodes (updateTorExitNodes Throws Throws now ts)
       = torExitNodes ts \<union> set knownExitNodes
   \<and> lastUpdate (updateTorExitNodes Throws Throws now ts) = Some now
   \<and> torExitNodes (updateTorExitNodes (Returns d) s now ts)
       \<subseteq> torExitNodes ts \<union> set (parseExitList d)
   \<and> torExitNodes (updateTorExitNodes Throws (Returns d) now ts)
       \<subseteq> torExitNodes ts \<union> set (parseExitList d)"
proof -
  have a: "torExitNodes (updateTorExitNodes (Returns d) s now ts)
       \<subseteq> torExitNodes ts \<union> set (parseExitList d)"
    by (simp add: updateTorExitNodes_def)
  have b: "torExitNodes (updateTorExitNodes Throws (Returns d) now ts)
       \<subseteq> torExitNodes ts \<union> set (parseExitList d)"
    by (simp add: updateTorExitNodes_def loadFallbackExitNodes_def)
  show ?thesis using a b
    by (simp add: updateTorExitNodes_secondary updateTorExitNodes_hardcoded)
qed

theorem fallback_chain_amended_witness:
  "''2.2.2.2'' \<noteq> []
   \<and> set (parseExitList ''2.2.2.2'')
        \<subseteq> torExitNodes (updateTorExitNodes Throws (Returns ''2.2.2.2'') 5000
             \<lparr> torExitNodes = {''1.1.1.1''}, lastUpdate = Some 1000 \<rparr>)
   \<and> torExitNodes \<lparr> torExitNodes = {}, lastUpdate = None \<rparr> = {}
   \<and> torExitNodes (updateTorExitNodes Throws (Returns ''2.2.2.2'') 5000
        \<lparr> torExitNodes = {}, lastUpdate = None \<rparr>) = set (parseExitList ''2.2.2.2'')"
proof -
  have n: "''2.2.2.2'' \<noteq> []" by simp
  have e: "torExitNodes \<lparr> torExitNodes = {}, lastUpdate = None \<rparr> = {}" by simp
  have 1: "set (parseExitList ''2.2.2.2'')
        \<subseteq> torExitNodes (updateTorExitNodes Throws (Returns ''2.2.2.2'') 5000
             \<lparr> torExitNodes = {''1.1.1.1''}, lastUpdate = Some 1000 \<rparr>)"
    using fallback_chain_amended [of "''2.2.2.2''" 5000 "\<lparr> torExitNodes = {''1.1.1.1''}, lastUpdate = Some 1000 \<rparr>"] n by blast
  have 2: "torExitNodes (updateTorExitNodes Throws (Returns ''2.2.2.2'') 5000
        \<lparr> torExitNodes = {}, lastUpdate = None \<rparr>) = set (parseExitList ''2.2.2.2'')"
    using fallback_chain_amended [of "''2.2.2.2''" 5000 "\<lparr> torExitNodes = {}, lastUpdate = None \<rparr>"] n e
    by blast
  show ?thesis using n e 1 2 by blast
qed

section \<open>The reputation collector\<close>

text \<open>
  Claim C8. When the reputation lookup returns the abuse confidence \<open>c\<close>, the collector
  adds \<open>min c 50\<close> to the score if \<open>c > 25\<close> and nothing otherwise. When the lookup is
  configured and returns 90 while the other collectors together add nothing, the score
  of the request is 50, and the request is blocked exactly when strict mode is on.
\<close>

theorem reputation_contribution:
  "riskScore (checkIPReputation (Returns (Some d)) a) =
     riskScore a + (if abuseConfidencePercentage d > 25
                    then min (abuseConfidencePercentage d) 50 else 0)
   \<and> (truthyStr (ABUSEIPDB_KEY cfg) \<and> \<not> unexpected sig
        \<and> repResponse sig = Returns (Some d) \<and> abuseConfidencePercentage d = 90
        \<and> riskScore (collect (cfg\<lparr> ABUSEIPDB_KEY := None \<rparr>) sig i ua) = 0
      \<longrightarrow> riskScore (analyzeIP cfg sig i ua) = 50
          \<and> (isBlocked (analyzeIP cfg sig i ua) \<longleftrightarrow> STRICT_MODE cfg = Some ''true''))"
proof -
  have "riskScore (analyzeIP cfg sig i ua) = 50
        \<and> (isBlocked (analyzeIP cfg sig i ua) \<longleftrightarrow> STRICT_MODE cfg = Some ''true'')"
    if k: "truthyStr (ABUSEIPDB_KEY cfg)" and n: "\<not> unexpected sig"
      and r: "repResponse sig = Returns (Some d)" and c: "abuseConfidencePercentage d = 90"
      and z: "riskScore (collect (cfg\<lparr> ABUSEIPDB_KEY := None \<rparr>) sig i ua) = 0"
  proof -
    have "riskScore (collect cfg sig i ua) = 50"
      using k r c z by (simp add: collect_without_reputation [of cfg] checkIPReputation_score)
    then have s: "riskScore (analyzeIP cfg sig i ua) = 50"
      using n by (simp add: analyzeIP_def makeBlockDecision_score calculateRiskScore_score)
    have "isBlocked (analyzeIP cfg sig i ua) \<longleftrightarrow> threshold cfg \<le> 50"
      using blocked_iff_threshold [of cfg sig i ua] s by simp
    then show ?thesis using s by (simp add: threshold_def)
  qed
  then show ?thesis by (simp add: checkIPReputation_score)
qed

theorem reputation_contribution_witness:
  "riskScore (analyzeIP
        \<lparr> BLOCK_VPN_TOR = Some ''true'', STRICT_MODE = Some ''true'', IPAPI_KEY = None,
          ABUSEIPDB_KEY = Some ''key'' \<rparr>
        \<lparr> geoLookup = None, torLookup = False,
          vpnResponse = Returns None,
          uaResult = \<lparr> ua_browser = ''Firefox'', ua_os = ''Linux'', ua_device = [] \<rparr>,
          repResponse = Returns (Some \<lparr> abuseConfidencePercentage = 90, rep_isWhitelisted = False,
                                   countryCode = ''DE'' \<rparr>), unexpected = False \<rparr>
        ''203.0.113.7'' ''Mozilla/5.0 (X11; Linux x86_64) Firefox/115.0'') = 50
   \<and> isBlocked (analyzeIP
        \<lparr> BLOCK_VPN_TOR = Some ''true'', STRICT_MODE = Some ''true'', IPAPI_KEY = None,
          ABUSEIPDB_KEY = Some ''key'' \<rparr>
        \<lparr> geoLookup = None, torLookup = False,
          vpnResponse = Returns None,
          uaResult = \<lparr> ua_browser = ''Firefox'', ua_os = ''Linux'', ua_device = [] \<rparr>,
          repResponse = Returns (Some \<lparr> abuseConfidencePercentage = 90, rep_isWhitelisted = False,
                                   countryCode = ''DE'' \<rparr>), unexpected = False \<rparr>
        ''203.0.113.7'' ''Mozilla/5.0 (X11; Linux x86_64) Firefox/115.0'')
   \<and> riskScore (analyzeIP
        \<lparr> BLOCK_VPN_TOR = Some ''true'', STRICT_MODE = None, IPAPI_KEY = None,
          ABUSEIPDB_KEY = Some ''key'' \<rparr>
        \<lparr> geoLookup = None, torLookup = False,
          vpnResponse = Returns None,
          uaResult = \<lparr> ua_browser = ''Firefox'', ua_os = ''Linux'', ua_device = [] \<rparr>,
          repResponse = Returns (Some \<lparr> abuseConfidencePercentage = 90, rep_isWhitelisted = False,
                                   countryCode = ''DE'' \<rparr>), unexpected = False \<rparr>
        ''203.0.113.7'' ''Mozilla/5.0 (X11; Linux x86_64) Firefox/115.0'') = 50
   \<and> \<not> isBlocked (analyzeIP
        \<lparr> BLOCK_VPN_TOR = Some ''true'', STRICT_MODE = None, IPAPI_KEY = None,
          ABUSEIPDB_KEY = Some ''key'' \<rparr>
        \<lparr> geoLookup = None, torLookup = False,
          vpnResponse = Returns None,
          uaResult = \<lparr> ua_browser = ''Firefox'', ua_os = ''Linux'', ua_device = [] \<rparr>,
          repResponse = Returns (Some \<lparr> abuseConfidencePercentage = 90, rep_isWhitelisted = False,
                                   countryCode = ''DE'' \<rparr>), unexpected = False \<rparr>
        ''203.0.113.7'' ''Mozilla/5.0 (X11; Linux x86_64) Firefox/115.0'')"
proof -
  let ?sig = "\<lparr> geoLookup = None, torLookup = False,
          vpnResponse = Returns None,
          uaResult = \<lparr> ua_browser = ''Firefox'', ua_os = ''Linux'', ua_device = [] \<rparr>,
          repResponse = Returns (Some \<lparr> abuseConfidencePercentage = 90, rep_isWhitelisted = False,
                                   countryCode = ''DE'' \<rparr>), unexpected = False \<rparr>"
  let ?strict = "\<lparr> BLOCK_VPN_TOR = Some ''true'', STRICT_MODE = Some ''true'', IPAPI_KEY = None,
          ABUSEIPDB_KEY = Some ''key'' \<rparr>"
  let ?normal = "\<lparr> BLOCK_VPN_TOR = Some ''true'', STRICT_MODE = None, IPAPI_KEY = None,
          ABUSEIPDB_KEY = Some ''key'' \<rparr>"
  let ?d = "\<lparr> abuseConfidencePercentage = 90, rep_isWhitelisted = False,
                                   countryCode = ''DE'' \<rparr>"
  let ?ua = "''Mozilla/5.0 (X11; Linux x86_64) Firefox/115.0''"
  let ?i = "''203.0.113.7''"
  have k1: "truthyStr (ABUSEIPDB_KEY ?strict)" by (simp add: truthyStr_def)
  have k2: "truthyStr (ABUSEIPDB_KEY ?normal)" by (simp add: truthyStr_def)
  have n: "\<not> unexpected ?sig" by simp
  have r: "repResponse ?sig = Returns (Some ?d)" by simp
  have c: "abuseConfidencePercentage ?d = 90" by simp
  have z1: "riskScore (collect (?strict\<lparr> ABUSEIPDB_KEY := None \<rparr>) ?sig ?i ?ua) = 0"
    by code_simp
  have z2: "riskScore (collect (?normal\<lparr> ABUSEIPDB_KEY := None \<rparr>) ?sig ?i ?ua) = 0"
    by code_simp
  have s1: "STRICT_MODE ?strict = Some ''true''" by simp
  have s2: "STRICT_MODE ?normal \<noteq> Some ''true''" by simp
  have "riskScore (analyzeIP ?strict ?sig ?i ?ua) = 50
        \<and> isBlocked (analyzeIP ?strict ?sig ?i ?ua)"
    using reputation_contribution [of ?d _ ?strict ?sig ?i ?ua] k1 n r c z1 s1 by blast
  moreover
  have "riskScore (analyzeIP ?normal ?sig ?i ?ua) = 50
        \<and> \<not> isBlocked (analyzeIP ?normal ?sig ?i ?ua)"
    using reputation_contribution [of ?d _ ?normal ?sig ?i ?ua] k2 n r c z2 s2 by blast
  ultimately show ?thesis by blast
qed

section \<open>The user-agent collector\<close>

text \<open>
  Claim C9. For every user-agent string the collector adds 20 when the string is empty or
  shorter than 10 characters, and adds 15 when the string contains, in any letter case,
  one of the words bot, crawler, spider, scraper, curl, wget, python, java. A missing
  user agent reaches the collector as the empty string and is scored with 20; the
  collector is never skipped: after the collectors its check is marked as performed, and
  the sum of the collectors is at least what it adds.
\<close>

theorem userAgent_contribution:
  "riskScore (analyzeUserAgent r ua a) =
     riskScore a + (if ua = [] \<or> length ua < 10 then 20 else 0)
                 + (if matchesBotPattern ua then 15 else 0)
   \<and> riskScore (analyzeUserAgent r [] a) = riskScore a + 20
   \<and> orElse None [] = []
   \<and> map_option userAgent (checks (collect cfg sig i ua)) = Some True
   \<and> (if ua = [] \<or> length ua < 10 then 20 else 0) + (if matchesBotPattern ua then 15 else 0)
       \<le> riskScore (collect cfg sig i ua)
   \<and> (matchesBotPattern ua \<longleftrightarrow>
        (\<exists>p \<in> set [''bot'', ''crawler'', ''spider'', ''scraper'', ''curl'', ''wget'',
                     ''python'', ''java''].
           \<exists>pre post. map regexCanon ua = pre @ map regexCanon p @ post))"
proof -
  have e: "\<not> matchesBotPattern []"
    by (simp add: matchesBotPattern_def botPatterns_def)
  have m: "matchesBotPattern ua \<longleftrightarrow>
        (\<exists>p \<in> set [''bot'', ''crawler'', ''spider'', ''scraper'', ''curl'', ''wget'',
                     ''python'', ''java''].
           \<exists>pre post. map regexCanon ua = pre @ map regexCanon p @ post)"
    unfolding matchesBotPattern_def botPatterns_def list_ex_iff regexTest_iff ..
  have s: "riskScore (analyzeUserAgent r ua a) =
     riskScore a + (if ua = [] \<or> length ua < 10 then 20 else 0)
                 + (if matchesBotPattern ua then 15 else 0)"
    by (auto simp add: analyzeUserAgent_score)
  have z: "riskScore (analyzeUserAgent r [] a) = riskScore a + 20"
    using e by (simp add: analyzeUserAgent_score)
  have o: "orElse None [] = []" by (simp add: orElse_def)
  have g: "(if ua = [] \<or> length ua < 10 then 20 else 0)
           + (if matchesBotPattern ua then 15 else 0) \<le> riskScore (collect cfg sig i ua)"
    using collect_ge_userAgent [of ua cfg sig i] by auto
  show ?thesis using s z o m g collect_userAgent_check by blast
qed

section \<open>A cache hit and the log\<close>

text \<open>
  Claim C10. When the cache holds an eligible entry under the key of the request, the
  middleware answers with \<open>handleResult\<close> of the cached analysis and the log service is
  left as it was: nothing is appended to \<open>requestLogs\<close> and no file changes. Conversely,
  a request after which \<open>requestLogs\<close> differs was a cache miss.
\<close>

theorem cache_hit_leaves_log_unchanged:
  "(cache (cacheSvc st) (cacheKeyOf (getClientIP req)) = Some e \<and> eligible (ctx_now ctx) e
      \<longrightarrow> fst (analyze cfg sig ctx req st)
            = handleResult ctx (cachedValue e) (ctx_requestId ctx)
          \<and> logSvc (snd (analyze cfg sig ctx req st)) = logSvc st
          \<and> requestLogs (logSvc (snd (analyze cfg sig ctx req st))) = requestLogs (logSvc st))
   \<and> (requestLogs (logSvc (snd (analyze cfg sig ctx req st))) \<noteq> requestLogs (logSvc st)
      \<longrightarrow> fst (cache_get (ctx_now ctx) (cacheKeyOf (getClientIP req)) (cacheSvc st)) = None)"
proof -
  have a: "fst (analyze cfg sig ctx req st)
            = handleResult ctx (cachedValue e) (ctx_requestId ctx)
          \<and> logSvc (snd (analyze cfg sig ctx req st)) = logSvc st
          \<and> requestLogs (logSvc (snd (analyze cfg sig ctx req st))) = requestLogs (logSvc st)"
    if "cache (cacheSvc st) (cacheKeyOf (getClientIP req)) = Some e"
      and "eligible (ctx_now ctx) e"
    using analyze_hit [OF that] by simp
  have b: "fst (cache_get (ctx_now ctx) (cacheKeyOf (getClientIP req)) (cacheSvc st)) = None"
    if c: "requestLogs (logSvc (snd (analyze cfg sig ctx req st))) \<noteq> requestLogs (logSvc st)"
  proof (cases "cache (cacheSvc st) (cacheKeyOf (getClientIP req))")
    case None
    then show ?thesis by (simp add: cache_get_def)
  next
    case (Some e')
    show ?thesis
    proof (cases "eligible (ctx_now ctx) e'")
      case True
      then show ?thesis using analyze_hit [OF Some True, of cfg sig] c by simp
    next
      case False
      then show ?thesis using Some by (simp add: cache_get_def)
    qed
  qed
  show ?thesis using a b by blast
qed

theorem cache_hit_leaves_log_unchanged_witness:
  "cache (cacheSvc
        \<lparr> cacheSvc = \<lparr> cache = [''analysis:203.0.113.7'' \<mapsto> \<lparr> cachedValue = errorResult ''203.0.113.7'', insertedAt = 1000000,
                   ttlSeconds = 300 \<rparr>],
                        hits = 0, misses = 0, sets = 1 \<rparr>,
          logSvc = \<lparr> requestLogs = [], logFiles = Map.empty \<rparr> \<rparr>)
      (cacheKeyOf (getClientIP
        \<lparr> x_forwarded_for = Some ''203.0.113.7'', x_real_ip = None,
          connection_remoteAddress = Some ''10.0.0.1'', socket_remoteAddress = None,
          req_ip = None, user_agent = Some ''curl/7.68'', req_url = ''/'',
          req_method = ''GET'' \<rparr>))
     = Some \<lparr> cachedValue = errorResult ''203.0.113.7'', insertedAt = 1000000,
                   ttlSeconds = 300 \<rparr>
   \<and> eligible 1060000 \<lparr> cachedValue = errorResult ''203.0.113.7'', insertedAt = 1000000,
                   ttlSeconds = 300 \<rparr>
   \<and> fst (analyze
        \<lparr> BLOCK_VPN_TOR = Some ''true'', STRICT_MODE = Some ''true'', IPAPI_KEY = None,
          ABUSEIPDB_KEY = None \<rparr>
        \<lparr> geoLookup = Some \<lparr> geo_country = ''CN'', geo_region = ''BJ'', geo_city = ''Beijing'',
                             geo_timezone = ''Asia/Shanghai'' \<rparr>, torLookup = False,
          vpnResponse = Throws,
          uaResult = \<lparr> ua_browser = ''curl'', ua_os = ''Linux'', ua_device = [] \<rparr>,
          repResponse = Throws, unexpected = False \<rparr>
        \<lparr> ctx_now = 1060000, ctx_today = ''2024-01-01'', ctx_requestId = ''r2'',
          ctx_writable = True \<rparr>
        \<lparr> x_forwarded_for = Some ''203.0.113.7'', x_real_ip = None,
          connection_remoteAddress = Some ''10.0.0.1'', socket_remoteAddress = None,
          req_ip = None, user_agent = Some ''curl/7.68'', req_url = ''/'',
          req_method = ''GET'' \<rparr>
        \<lparr> cacheSvc = \<lparr> cache = [''analysis:203.0.113.7'' \<mapsto> \<lparr> cachedValue = errorResult ''203.0.113.7'', insertedAt = 1000000,
                   ttlSeconds = 300 \<rparr>],
                        hits = 0, misses = 0, sets = 1 \<rparr>,
          logSvc = \<lparr> requestLogs = [], logFiles = Map.empty \<rparr> \<rparr>)
      = Blocked403 (Some ANALYSIS_ERROR) 100 ''r2'' 1060000
   \<and> requestLogs (logSvc (snd (analyze
        \<lparr> BLOCK_VPN_TOR = Some ''true'', STRICT_MODE = Some ''true'', IPAPI_KEY = None,
          ABUSEIPDB_KEY = None \<rparr>
        \<lparr> geoLookup = Some \<lparr> geo_country = ''CN'', geo_region = ''BJ'', geo_city = ''Beijing'',
                             geo_timezone = ''Asia/Shanghai'' \<rparr>, torLookup = False,
          vpnResponse = Throws,
          uaResult = \<lparr> ua_browser = ''curl'', ua_os = ''Linux'', ua_device = [] \<rparr>,
          repResponse = Throws, unexpected = False \<rparr>
        \<lparr> ctx_now = 1060000, ctx_today = ''2024-01-01'', ctx_requestId = ''r2'',
          ctx_writable = True \<rparr>
        \<lparr> x_forwarded_for = Some ''203.0.113.7'', x_real_ip = None,
          connection_remoteAddress = Some ''10.0.0.1'', socket_remoteAddress = None,
          req_ip = None, user_agent = Some ''curl/7.68'', req_url = ''/'',
          req_method = ''GET'' \<rparr>
        \<lparr> cacheSvc = \<lparr> cache = [''analysis:203.0.113.7'' \<mapsto> \<lparr> cachedValue = errorResult ''203.0.113.7'', insertedAt = 1000000,
                   ttlSeconds = 300 \<rparr>],
                        hits = 0, misses = 0, sets = 1 \<rparr>,
          logSvc = \<lparr> requestLogs = [], logFiles = Map.empty \<rparr> \<rparr>))) = []
   \<and> length (requestLogs (logSvc (snd (analyze
        \<lparr> BLOCK_VPN_TOR = Some ''true'', STRICT_MODE = Some ''true'', IPAPI_KEY = None,
          ABUSEIPDB_KEY = None \<rparr>
        \<lparr> geoLookup = Some \<lparr> geo_country = ''CN'', geo_region = ''BJ'', geo_city = ''Beijing'',
                             geo_timezone = ''Asia/Shanghai'' \<rparr>, torLookup = False,
          vpnResponse = Throws,
          uaResult = \<lparr> ua_browser = ''curl'', ua_os = ''Linux'', ua_device = [] \<rparr>,
          repResponse = Throws, unexpected = False \<rparr>
        \<lparr> ctx_now = 1060000, ctx_today = ''2024-01-01'', ctx_requestId = ''r2'',
          ctx_writable = True \<rparr>
        \<lparr> x_forwarded_for = Some ''203.0.113.7'', x_real_ip = None,
          connection_remoteAddress = Some ''10.0.0.1'', socket_remoteAddress = None,
          req_ip = None, user_agent = Some ''curl/7.68'', req_url = ''/'',
          req_method = ''GET'' \<rparr>
        \<lparr> cacheSvc = \<lparr> cache = Map.empty, hits = 0, misses = 0, sets = 0 \<rparr>,
          logSvc = \<lparr> requestLogs = [], logFiles = Map.empty \<rparr> \<rparr>)))) = 1
   \<and> fst (cache_get 1060000
        (cacheKeyOf (getClientIP
          \<lparr> x_forwarded_for = Some ''203.0.113.7'', x_real_ip = None,
          connection_remoteAddress = Some ''10.0.0.1'', socket_remoteAddress = None,
          req_ip = None, user_agent = Some ''curl/7.68'', req_url = ''/'',
          req_method = ''GET'' \<rparr>))
        (cacheSvc
          \<lparr> cacheSvc = \<lparr> cache = Map.empty, hits = 0, misses = 0, sets = 0 \<rparr>,
          logSvc = \<lparr> requestLogs = [], logFiles = Map.empty \<rparr> \<rparr>)) = None"
proof -
  let ?st = "\<lparr> cacheSvc = \<lparr> cache = [''analysis:203.0.113.7'' \<mapsto> \<lparr> cachedValue = errorResult ''203.0.113.7'', insertedAt = 1000000,
                   ttlSeconds = 300 \<rparr>],
                        hits = 0, misses = 0, sets = 1 \<rparr>,
          logSvc = \<lparr> requestLogs = [], logFiles = Map.empty \<rparr> \<rparr>"
  let ?fresh = "\<lparr> cacheSvc = \<lparr> cache = Map.empty, hits = 0, misses = 0, sets = 0 \<rparr>,
          logSvc = \<lparr> requestLogs = [], logFiles = Map.empty \<rparr> \<rparr>"
  let ?req = "\<lparr> x_forwarded_for = Some ''203.0.113.7'', x_real_ip = None,
          connection_remoteAddress = Some ''10.0.0.1'', socket_remoteAddress = None,
          req_ip = None, user_agent = Some ''curl/7.68'', req_url = ''/'',
          req_method = ''GET'' \<rparr>"
  let ?ctx = "\<lparr> ctx_now = 1060000, ctx_today = ''2024-01-01'', ctx_requestId = ''r2'',
          ctx_writable = True \<rparr>"
  let ?e = "\<lparr> cachedValue = errorResult ''203.0.113.7'', insertedAt = 1000000,
                   ttlSeconds = 300 \<rparr>"
  let ?cfg = "\<lparr> BLOCK_VPN_TOR = Some ''true'', STRICT_MODE = Some ''true'', IPAPI_KEY = None,
          ABUSEIPDB_KEY = None \<rparr>"
  let ?sig = "\<lparr> geoLookup = Some \<lparr> geo_country = ''CN'', geo_region = ''BJ'', geo_city = ''Beijing'',
                             geo_timezone = ''Asia/Shanghai'' \<rparr>, torLookup = False,
          vpnResponse = Throws,
          uaResult = \<lparr> ua_browser = ''curl'', ua_os = ''Linux'', ua_device = [] \<rparr>,
          repResponse = Throws, unexpected = False \<rparr>"
  have h1: "cache (cacheSvc ?st) (cacheKeyOf (getClientIP ?req)) = Some ?e" by code_simp
  have h2: "eligible (ctx_now ?ctx) ?e" by code_simp
  have h2': "eligible 1060000 ?e" by code_simp
  have r: "handleResult ?ctx (cachedValue ?e) (ctx_requestId ?ctx)
           = Blocked403 (Some ANALYSIS_ERROR) 100 ''r2'' 1060000"
    by code_simp
  have l: "requestLogs (logSvc ?st) = []" by simp
  have "fst (analyze ?cfg ?sig ?ctx ?req ?st)
          = handleResult ?ctx (cachedValue ?e) (ctx_requestId ?ctx)
        \<and> requestLogs (logSvc (snd (analyze ?cfg ?sig ?ctx ?req ?st)))
          = requestLogs (logSvc ?st)"
    using cache_hit_leaves_log_unchanged [of ?st ?req ?e ?ctx ?cfg ?sig] h1 h2 by blast
  then have hit: "fst (analyze ?cfg ?sig ?ctx ?req ?st)
          = Blocked403 (Some ANALYSIS_ERROR) 100 ''r2'' 1060000
        \<and> requestLogs (logSvc (snd (analyze ?cfg ?sig ?ctx ?req ?st))) = []"
    by (simp only: r l)
  have m1: "length (requestLogs (logSvc (snd (analyze ?cfg ?sig ?ctx ?req ?fresh)))) = 1"
    by code_simp
  have l0: "requestLogs (logSvc ?fresh) = []" by simp
  have m2: "requestLogs (logSvc (snd (analyze ?cfg ?sig ?ctx ?req ?fresh)))
            \<noteq> requestLogs (logSvc ?fresh)"
  proof
    assume "requestLogs (logSvc (snd (analyze ?cfg ?sig ?ctx ?req ?fresh)))
            = requestLogs (logSvc ?fresh)"
    then have "length (requestLogs (logSvc (snd (analyze ?cfg ?sig ?ctx ?req ?fresh))))
               = length (requestLogs (logSvc ?fresh))"
      by (rule arg_cong)
    then have "(1::nat) = length ([]::logEntry list)" by (simp only: m1 l0)
    then show False by simp
  qed
  have n: "ctx_now ?ctx = 1060000" by simp
  have "fst (cache_get (ctx_now ?ctx) (cacheKeyOf (getClientIP ?req)) (cacheSvc ?fresh)) = None"
    using cache_hit_leaves_log_unchanged [of ?fresh ?req _ ?ctx ?cfg ?sig] m2 by blast
  then have miss: "fst (cache_get 1060000 (cacheKeyOf (getClientIP ?req)) (cacheSvc ?fresh)) = None"
    by (simp only: n)
  show ?thesis using h1 h2' hit m1 miss by blast
qed

end
